theory Spec2Isabelle
  imports Main
begin

section \<open>The security quality gate (.github/scripts/quality-gate.py)\<close>

text \<open>
  The script reads vulnerability counts of three scanner categories (SAST, SCA, DAST),
  each from plain-text count files or from the scanner's JSON report, adds them up per
  severity, compares the totals with thresholds that are all 0, writes a JSON summary
  and returns 0 or 1.

  The embedding follows the script function by function. What the script does beyond
  computing values is explicit: the file system is a parameter, an exception is the
  \<open>Inl\<close> of a sum, and the warnings a function prints are returned with its value.
  The report the script prints besides the warnings (banner and tables) is not modelled:
  it formats values that are already computed and decides nothing.
\<close>

subsection \<open>Python values, exceptions and the environment\<close>

text \<open>
  The exceptions the script can meet. \<open>UnicodeDecodeError\<close> and
  \<open>JSONDecodeError\<close> are subclasses of \<open>ValueError\<close> in Python, which
  matters for the \<open>except ValueError\<close> clause of \<open>read_count\<close>.
\<close>

datatype exn =
  FileNotFoundError | OSError | UnicodeDecodeError | JSONDecodeError
  | ValueError | TypeError | AttributeError

definition is_ValueError :: "exn \<Rightarrow> bool" where
  "is_ValueError e = (e = ValueError \<or> e = UnicodeDecodeError \<or> e = JSONDecodeError)"

text \<open>
  What \<open>json.load\<close> returns: \<open>None\<close>, \<open>bool\<close>, \<open>int\<close>,
  \<open>str\<close>, \<open>list\<close> and \<open>dict\<close> (keys in insertion order). A number
  with a fraction or an exponent becomes a Python float; floating point is outside this
  embedding, so the model covers the documents whose numbers are integers.
  A \<open>char\<close> stands for a code point below 256.
\<close>

datatype json =
  JNull | JBool bool | JInt int | JString string
  | JArray "json list" | JObject "(string \<times> json) list"

text \<open>
  A path either does not exist (\<open>None\<close>), or exists and holds text, or exists and
  cannot be read as text: \<open>open\<close> or \<open>read\<close> raises the given exception
  (a directory, a permission problem, bytes that do not decode).
\<close>

datatype file_state = Text string | Unreadable exn

text \<open>
  The environment of one run: the files, the JSON decoder of the standard library
  (\<open>None\<close> for a text it rejects with \<open>JSONDecodeError\<close>), and the exception,
  if any, that writing the summary file raises.
\<close>

record env =
  files :: "string \<Rightarrow> file_state option"
  json_decode :: "string \<Rightarrow> json option"
  write_error :: "exn option"

text \<open>The warnings the script prints, one constructor per message.\<close>

datatype warning =
  File_not_found string
  | Invalid_content string exn
  | Error_reading string exn
  | Semgrep_unparsed exn
  | Npm_audit_unparsed exn
  | Zap_unparsed exn

record 'a counts =
  critical :: 'a
  high :: 'a
  medium :: 'a
  low :: 'a

definition exists :: "env \<Rightarrow> string \<Rightarrow> bool" where
  "exists e p = (files e p \<noteq> None)"

text \<open>\<open>with open(filepath, 'r') as f: ... f.read()\<close>\<close>

definition open_read :: "env \<Rightarrow> string \<Rightarrow> exn + string" where
  "open_read e p =
     (case files e p of
        None \<Rightarrow> Inl FileNotFoundError
      | Some (Unreadable x) \<Rightarrow> Inl x
      | Some (Text s) \<Rightarrow> Inr s)"

text \<open>\<open>with open(filepath, 'r') as f: data = json.load(f)\<close>\<close>

definition load_json :: "env \<Rightarrow> string \<Rightarrow> exn + json" where
  "load_json e p =
     (case open_read e p of
        Inl x \<Rightarrow> Inl x
      | Inr s \<Rightarrow> (case json_decode e s of None \<Rightarrow> Inl JSONDecodeError | Some d \<Rightarrow> Inr d))"

subsection \<open>The built-ins the script calls\<close>

text \<open>
  \<open>str.strip()\<close> removes the characters for which \<open>str.isspace\<close> holds; below
  code point 256 these are 9 to 13, 28 to 32, 133 and 160.
\<close>

definition is_space :: "char \<Rightarrow> bool" where
  "is_space c =
     (let n = (of_char c :: nat)
      in (9 \<le> n \<and> n \<le> 13) \<or> (28 \<le> n \<and> n \<le> 32) \<or> n = 133 \<or> n = 160)"

definition py_strip :: "string \<Rightarrow> string" where
  "py_strip s = rev (dropWhile is_space (rev (dropWhile is_space s)))"

definition is_digit :: "char \<Rightarrow> bool" where
  "is_digit c = (let n = (of_char c :: nat) in 48 \<le> n \<and> n \<le> 57)"

definition digit_val :: "char \<Rightarrow> nat" where
  "digit_val c = of_char c - 48"

text \<open>
  \<open>int(s)\<close> for a string, base 10: surrounding whitespace, an optional sign, then
  decimal digits, where single underscores may stand between two digits. \<open>None\<close> is
  \<open>ValueError\<close>. (CPython's optional limit on the number of digits is not modelled.)
\<close>

fun digits_from :: "nat \<Rightarrow> string \<Rightarrow> nat option" where
  "digits_from acc [] = Some acc"
| "digits_from acc (c # cs) =
     (if is_digit c then digits_from (10 * acc + digit_val c) cs
      else if c = CHR ''_'' then
        (case cs of
           [] \<Rightarrow> None
         | d # ds \<Rightarrow> if is_digit d then digits_from (10 * acc + digit_val d) ds else None)
      else None)"

definition unsigned_literal :: "string \<Rightarrow> nat option" where
  "unsigned_literal s =
     (case s of
        [] \<Rightarrow> None
      | c # cs \<Rightarrow> if is_digit c then digits_from (digit_val c) cs else None)"

definition int_literal :: "string \<Rightarrow> int option" where
  "int_literal s =
     (case s of
        [] \<Rightarrow> None
      | c # cs \<Rightarrow>
          if c = CHR ''-'' then map_option (\<lambda>n. - int n) (unsigned_literal cs)
          else if c = CHR ''+'' then map_option int (unsigned_literal cs)
          else map_option int (unsigned_literal s))"

definition py_int_str :: "string \<Rightarrow> int option" where
  "py_int_str s = int_literal (py_strip s)"

text \<open>
  \<open>int(x)\<close> for a JSON value: an int is itself, a bool is 0 or 1, a string is parsed,
  and \<open>None\<close>, a list or a dict raise \<open>TypeError\<close>.
\<close>

fun py_int :: "json \<Rightarrow> exn + int" where
  "py_int (JInt n) = Inr n"
| "py_int (JBool b) = Inr (if b then 1 else 0)"
| "py_int (JString s) = (case py_int_str s of None \<Rightarrow> Inl ValueError | Some n \<Rightarrow> Inr n)"
| "py_int JNull = Inl TypeError"
| "py_int (JArray xs) = Inl TypeError"
| "py_int (JObject kvs) = Inl TypeError"

text \<open>
  \<open>x.get(key, default)\<close>: only a dict has the method; on every other value the
  attribute lookup raises \<open>AttributeError\<close>.
\<close>

fun py_get :: "json \<Rightarrow> string \<Rightarrow> json \<Rightarrow> exn + json" where
  "py_get (JObject kvs) k d = (case map_of kvs k of None \<Rightarrow> Inr d | Some v \<Rightarrow> Inr v)"
| "py_get _ k d = Inl AttributeError"

text \<open>
  The items a \<open>for\<close> loop or a generator runs over: the elements of a list, the keys of
  a dict, the characters of a string; \<open>None\<close>, a bool and an int are not iterable.
\<close>

fun py_iter :: "json \<Rightarrow> exn + json list" where
  "py_iter (JArray xs) = Inr xs"
| "py_iter (JObject kvs) = Inr (map (\<lambda>kv. JString (fst kv)) kvs)"
| "py_iter (JString s) = Inr (map (\<lambda>c. JString [c]) s)"
| "py_iter _ = Inl TypeError"

text \<open>
  \<open>n + v\<close> and \<open>v + n\<close> where \<open>n\<close> is an int: an int if \<open>v\<close> is an int or a
  bool, \<open>TypeError\<close> if \<open>v\<close> is \<open>None\<close>, a string, a list or a dict. The function
  gives the int that \<open>v\<close> contributes.
\<close>

fun py_num :: "json \<Rightarrow> exn + int" where
  "py_num (JInt n) = Inr n"
| "py_num (JBool b) = Inr (if b then 1 else 0)"
| "py_num _ = Inl TypeError"

text \<open>\<open>str(n)\<close> for an int, as an f-string inserts it.\<close>

fun str_nat :: "nat \<Rightarrow> string" where
  "str_nat n =
     (if n < 10 then [char_of (48 + n)]
      else str_nat (n div 10) @ [char_of (48 + n mod 10)])"

definition str_int :: "int \<Rightarrow> string" where
  "str_int i = (if i < 0 then CHR ''-'' # str_nat (nat (- i)) else str_nat (nat i))"

text \<open>A loop whose body may raise: the first exception ends it.\<close>

fun for_each :: "('s \<Rightarrow> 'a \<Rightarrow> exn + 's) \<Rightarrow> 's \<Rightarrow> 'a list \<Rightarrow> exn + 's" where
  "for_each body s [] = Inr s"
| "for_each body s (x # xs) =
     (case body s x of Inl e \<Rightarrow> Inl e | Inr s' \<Rightarrow> for_each body s' xs)"

subsection \<open>read_count\<close>

definition read_count_try :: "env \<Rightarrow> string \<Rightarrow> int \<Rightarrow> exn + int" where
  "read_count_try e filepath dflt =
     (case open_read e filepath of
        Inl x \<Rightarrow> Inl x
      | Inr text \<Rightarrow>
          (let content = py_strip text
           in if content \<noteq> [] then
                (case py_int_str content of None \<Rightarrow> Inl ValueError | Some n \<Rightarrow> Inr n)
              else Inr dflt))"

definition read_count :: "env \<Rightarrow> string \<Rightarrow> int \<Rightarrow> int \<times> warning list" where
  "read_count e filepath dflt =
     (case read_count_try e filepath dflt of
        Inr n \<Rightarrow> (n, [])
      | Inl x \<Rightarrow>
          if x = FileNotFoundError then (dflt, [File_not_found filepath])
          else if is_ValueError x then (dflt, [Invalid_content filepath x])
          else (dflt, [Error_reading filepath x]))"

subsection \<open>parse_semgrep_results\<close>

text \<open>
  \<open>sum(1 for r in results if r.get('extra', {}).get('severity') == tag)\<close>, where a
  missing \<open>severity\<close> gives \<open>None\<close>.
\<close>

definition severity_is :: "string \<Rightarrow> nat \<Rightarrow> json \<Rightarrow> exn + nat" where
  "severity_is tag n r =
     (case py_get r ''extra'' (JObject []) of
        Inl x \<Rightarrow> Inl x
      | Inr extra \<Rightarrow>
          (case py_get extra ''severity'' JNull of
             Inl x \<Rightarrow> Inl x
           | Inr sev \<Rightarrow> Inr (if sev = JString tag then n + 1 else n)))"

definition count_severity :: "string \<Rightarrow> json \<Rightarrow> exn + nat" where
  "count_severity tag results =
     (case py_iter results of
        Inl x \<Rightarrow> Inl x
      | Inr rs \<Rightarrow> for_each (severity_is tag) 0 rs)"

definition parse_semgrep_try :: "env \<Rightarrow> string \<Rightarrow> exn + int \<times> int" where
  "parse_semgrep_try e filepath =
     (case load_json e filepath of
        Inl x \<Rightarrow> Inl x
      | Inr data \<Rightarrow>
          (case py_get data ''results'' (JArray []) of
             Inl x \<Rightarrow> Inl x
           | Inr results \<Rightarrow>
               (case count_severity ''ERROR'' results of
                  Inl x \<Rightarrow> Inl x
                | Inr c \<Rightarrow>
                    (case count_severity ''WARNING'' results of
                       Inl x \<Rightarrow> Inl x
                     | Inr h \<Rightarrow> Inr (int c, int h)))))"

definition parse_semgrep_results :: "env \<Rightarrow> string \<Rightarrow> (int \<times> int) \<times> warning list" where
  "parse_semgrep_results e filepath =
     (case parse_semgrep_try e filepath of
        Inr r \<Rightarrow> (r, [])
      | Inl x \<Rightarrow> ((0, 0), [Semgrep_unparsed x]))"

subsection \<open>parse_npm_audit_results\<close>

text \<open>The four values are returned as the report holds them, whatever their type.\<close>

definition parse_npm_audit_try :: "env \<Rightarrow> string \<Rightarrow> exn + json counts" where
  "parse_npm_audit_try e filepath =
     (case load_json e filepath of
        Inl x \<Rightarrow> Inl x
      | Inr data \<Rightarrow>
          (case py_get data ''metadata'' (JObject []) of
             Inl x \<Rightarrow> Inl x
           | Inr md \<Rightarrow>
               (case py_get md ''vulnerabilities'' (JObject []) of
                  Inl x \<Rightarrow> Inl x
                | Inr metadata \<Rightarrow>
                    (case py_get metadata ''critical'' (JInt 0) of
                       Inl x \<Rightarrow> Inl x
                     | Inr c \<Rightarrow>
                    (case py_get metadata ''high'' (JInt 0) of
                       Inl x \<Rightarrow> Inl x
                     | Inr h \<Rightarrow>
                    (case py_get metadata ''moderate'' (JInt 0) of
                       Inl x \<Rightarrow> Inl x
                     | Inr m \<Rightarrow>
                    (case py_get metadata ''low'' (JInt 0) of
                       Inl x \<Rightarrow> Inl x
                     | Inr l \<Rightarrow>
                         Inr \<lparr>critical = c, high = h, medium = m, low = l\<rparr>)))))))"

definition zero_json :: "json counts" where
  "zero_json = \<lparr>critical = JInt 0, high = JInt 0, medium = JInt 0, low = JInt 0\<rparr>"

definition parse_npm_audit_results :: "env \<Rightarrow> string \<Rightarrow> json counts \<times> warning list" where
  "parse_npm_audit_results e filepath =
     (case parse_npm_audit_try e filepath of
        Inr r \<Rightarrow> (r, [])
      | Inl x \<Rightarrow> (zero_json, [Npm_audit_unparsed x]))"

subsection \<open>parse_zap_results\<close>

definition zero_counts :: "int counts" where
  "zero_counts = \<lparr>critical = 0, high = 0, medium = 0, low = 0\<rparr>"

text \<open>The body of the inner loop: one alert.\<close>

definition zap_alert :: "int counts \<Rightarrow> json \<Rightarrow> exn + int counts" where
  "zap_alert c alert =
     (case py_get alert ''riskcode'' (JInt 0) of
        Inl x \<Rightarrow> Inl x
      | Inr v \<Rightarrow>
          (case py_int v of
             Inl x \<Rightarrow> Inl x
           | Inr risk_code \<Rightarrow>
               Inr (if risk_code = 3 then c\<lparr>critical := critical c + 1\<rparr>
                    else if risk_code = 2 then c\<lparr>high := high c + 1\<rparr>
                    else if risk_code = 1 then c\<lparr>medium := medium c + 1\<rparr>
                    else if risk_code = 0 then c\<lparr>low := low c + 1\<rparr>
                    else c)))"

text \<open>The body of the outer loop: one site.\<close>

definition zap_site :: "int counts \<Rightarrow> json \<Rightarrow> exn + int counts" where
  "zap_site c site =
     (case py_get site ''alerts'' (JArray []) of
        Inl x \<Rightarrow> Inl x
      | Inr alerts \<Rightarrow>
          (case py_iter alerts of
             Inl x \<Rightarrow> Inl x
           | Inr as \<Rightarrow> for_each zap_alert c as))"

definition zap_count :: "json \<Rightarrow> exn + int counts" where
  "zap_count data =
     (case py_get data ''site'' (JArray []) of
        Inl x \<Rightarrow> Inl x
      | Inr sites \<Rightarrow>
          (case py_iter sites of
             Inl x \<Rightarrow> Inl x
           | Inr ss \<Rightarrow> for_each zap_site zero_counts ss))"

definition parse_zap_try :: "env \<Rightarrow> string \<Rightarrow> exn + int counts" where
  "parse_zap_try e filepath =
     (case load_json e filepath of
        Inl x \<Rightarrow> Inl x
      | Inr data \<Rightarrow> zap_count data)"

definition parse_zap_results :: "env \<Rightarrow> string \<Rightarrow> int counts \<times> warning list" where
  "parse_zap_results e filepath =
     (case parse_zap_try e filepath of
        Inr r \<Rightarrow> (r, [])
      | Inl x \<Rightarrow> (zero_counts, [Zap_unparsed x]))"

subsection \<open>json.dump with indent=2\<close>

text \<open>
  The encoder of the standard library as the script calls it (\<open>ensure_ascii\<close> left
  at its default): a character outside the printable ASCII range, a double quote and a
  backslash are escaped; a non-empty list or dict puts every item on a line of its own,
  indented by two spaces per nesting level; the key separator is a colon and a space.
\<close>

definition hex_char :: "nat \<Rightarrow> char" where
  "hex_char n = (if n < 10 then char_of (48 + n) else char_of (87 + n))"

definition escape_char :: "char \<Rightarrow> string" where
  "escape_char c =
     (let n = (of_char c :: nat)
      in if c = CHR 0x22 then [CHR 0x5C, CHR 0x22]
         else if c = CHR 0x5C then [CHR 0x5C, CHR 0x5C]
         else if 32 \<le> n \<and> n \<le> 126 then [c]
         else if n = 8 then [CHR 0x5C, CHR ''b'']
         else if n = 12 then [CHR 0x5C, CHR ''f'']
         else if n = 10 then [CHR 0x5C, CHR ''n'']
         else if n = 13 then [CHR 0x5C, CHR ''r'']
         else if n = 9 then [CHR 0x5C, CHR ''t'']
         else [CHR 0x5C, CHR ''u'', CHR ''0'', CHR ''0'', hex_char (n div 16), hex_char (n mod 16)])"

definition dump_string :: "string \<Rightarrow> string" where
  "dump_string s = CHR 0x22 # concat (map escape_char s) @ [CHR 0x22]"

definition newline_indent :: "nat \<Rightarrow> string" where
  "newline_indent lvl = CHR 0x0A # replicate (2 * lvl) CHR '' ''"

fun join :: "string \<Rightarrow> string list \<Rightarrow> string" where
  "join sep [] = []"
| "join sep [x] = x"
| "join sep (x # y # ys) = x @ sep @ join sep (y # ys)"

fun dump :: "nat \<Rightarrow> json \<Rightarrow> string" where
  "dump lvl JNull = ''null''"
| "dump lvl (JBool b) = (if b then ''true'' else ''false'')"
| "dump lvl (JInt n) = str_int n"
| "dump lvl (JString s) = dump_string s"
| "dump lvl (JArray xs) =
     (if xs = [] then ''[]''
      else ''['' @ newline_indent (Suc lvl)
           @ join (CHR '','' # newline_indent (Suc lvl)) (map (dump (Suc lvl)) xs)
           @ newline_indent lvl @ '']'')"
| "dump lvl (JObject kvs) =
     (if kvs = [] then ''{}''
      else ''{'' @ newline_indent (Suc lvl)
           @ join (CHR '','' # newline_indent (Suc lvl))
               (map (\<lambda>kv. dump_string (fst kv) @ '': '' @ dump (Suc lvl) (snd kv)) kvs)
           @ newline_indent lvl @ ''}'')"

definition json_dump :: "json \<Rightarrow> string" where
  "json_dump j = dump 0 j"

subsection \<open>main\<close>

text \<open>Lines 120 to 153: where each category's counts come from.\<close>

definition resolve_sast :: "env \<Rightarrow> (int \<times> int) \<times> warning list" where
  "resolve_sast e =
     (if exists e ''sast-results/sast-critical.txt'' then
        (let (sast_critical, w1) = read_count e ''sast-results/sast-critical.txt'' 0;
             (sast_high, w2) = read_count e ''sast-results/sast-high.txt'' 0
         in ((sast_critical, sast_high), w1 @ w2))
      else if exists e ''sast-results/semgrep-results.json'' then
        parse_semgrep_results e ''sast-results/semgrep-results.json''
      else ((0, 0), []))"

definition resolve_sca :: "env \<Rightarrow> json counts \<times> warning list" where
  "resolve_sca e =
     (if exists e ''sca-results/sca-critical.txt'' then
        (let (sca_critical, w1) = read_count e ''sca-results/sca-critical.txt'' 0;
             (sca_high, w2) = read_count e ''sca-results/sca-high.txt'' 0;
             (sca_medium, w3) = read_count e ''sca-results/sca-medium.txt'' 0;
             (sca_low, w4) = read_count e ''sca-results/sca-low.txt'' 0
         in (\<lparr>critical = JInt sca_critical, high = JInt sca_high,
              medium = JInt sca_medium, low = JInt sca_low\<rparr>, w1 @ w2 @ w3 @ w4))
      else if exists e ''sca-results/npm-audit-results.json'' then
        parse_npm_audit_results e ''sca-results/npm-audit-results.json''
      else (zero_json, []))"

definition resolve_dast :: "env \<Rightarrow> int counts \<times> warning list" where
  "resolve_dast e =
     (if exists e ''dast-results/dast-critical.txt'' then
        (let (dast_critical, w1) = read_count e ''dast-results/dast-critical.txt'' 0;
             (dast_high, w2) = read_count e ''dast-results/dast-high.txt'' 0;
             (dast_medium, w3) = read_count e ''dast-results/dast-medium.txt'' 0;
             (dast_low, w4) = read_count e ''dast-results/dast-low.txt'' 0
         in (\<lparr>critical = dast_critical, high = dast_high,
              medium = dast_medium, low = dast_low\<rparr>, w1 @ w2 @ w3 @ w4))
      else if exists e ''dast-results/zap-report.json'' then
        parse_zap_results e ''dast-results/zap-report.json''
      else (zero_counts, []))"

text \<open>
  Lines 156 to 159. The SAST and DAST counts are ints; an SCA count taken from the npm
  report is whatever the report holds, and the addition raises \<open>TypeError\<close> unless it
  is an int or a bool.
\<close>

definition aggregate :: "int \<times> int \<Rightarrow> json counts \<Rightarrow> int counts \<Rightarrow> exn + int counts" where
  "aggregate sast sca dast =
     (case py_num (critical sca) of
        Inl x \<Rightarrow> Inl x
      | Inr sca_critical \<Rightarrow>
     (case py_num (high sca) of
        Inl x \<Rightarrow> Inl x
      | Inr sca_high \<Rightarrow>
     (case py_num (medium sca) of
        Inl x \<Rightarrow> Inl x
      | Inr sca_medium \<Rightarrow>
     (case py_num (low sca) of
        Inl x \<Rightarrow> Inl x
      | Inr sca_low \<Rightarrow>
          Inr \<lparr>critical = fst sast + sca_critical + critical dast,
               high = snd sast + sca_high + high dast,
               medium = sca_medium + medium dast,
               low = sca_low + low dast\<rparr>))))"

definition thresholds :: "int counts" where
  "thresholds = \<lparr>critical = 0, high = 0, medium = 0, low = 0\<rparr>"

definition failure_message :: "string \<Rightarrow> int \<Rightarrow> int \<Rightarrow> string" where
  "failure_message name n threshold =
     name @ '' vulnerabilities: '' @ str_int n
       @ '' exceeds threshold of '' @ str_int threshold"

text \<open>Lines 191 to 203: \<open>failures\<close> starts empty and each test may append.\<close>

definition check_thresholds :: "int counts \<Rightarrow> string list" where
  "check_thresholds t =
     (let failures = [];
          failures =
            (if critical t > critical thresholds
             then failures @ [failure_message ''Critical'' (critical t) (critical thresholds)]
             else failures);
          failures =
            (if high t > high thresholds
             then failures @ [failure_message ''High'' (high t) (high thresholds)]
             else failures);
          failures =
            (if medium t > medium thresholds
             then failures @ [failure_message ''Medium'' (medium t) (medium thresholds)]
             else failures);
          failures =
            (if low t > low thresholds
             then failures @ [failure_message ''Low'' (low t) (low thresholds)]
             else failures)
      in failures)"

definition counts_json :: "json counts \<Rightarrow> json" where
  "counts_json c =
     JObject [(''critical'', critical c), (''high'', high c),
              (''medium'', medium c), (''low'', low c)]"

text \<open>Lines 206 to 233: the summary dict.\<close>

definition build_summary ::
  "int \<times> int \<Rightarrow> json counts \<Rightarrow> int counts \<Rightarrow> int counts \<Rightarrow> string list \<Rightarrow> json" where
  "build_summary sast sca dast t failures =
     JObject
       [(''total_critical'', JInt (critical t)),
        (''total_high'', JInt (high t)),
        (''total_medium'', JInt (medium t)),
        (''total_low'', JInt (low t)),
        (''total'', JInt (critical t + high t + medium t + low t)),
        (''sast'', counts_json \<lparr>critical = JInt (fst sast), high = JInt (snd sast),
                                medium = JInt 0, low = JInt 0\<rparr>),
        (''sca'', counts_json sca),
        (''dast'', counts_json \<lparr>critical = JInt (critical dast), high = JInt (high dast),
                                medium = JInt (medium dast), low = JInt (low dast)\<rparr>),
        (''thresholds'', counts_json \<lparr>critical = JInt (critical thresholds),
                                      high = JInt (high thresholds),
                                      medium = JInt (medium thresholds),
                                      low = JInt (low thresholds)\<rparr>),
        (''passed'', JBool (length failures = 0)),
        (''failures'', JArray (map JString failures))]"

text \<open>
  What a call of \<open>main\<close> that returns leaves behind: its local variables (the
  counts of the three categories, the totals, the list \<open>failures\<close> and the
  summary dict), the text written to \<open>quality-gate-summary.json\<close>, the warnings
  printed, and the value returned.
\<close>

record run =
  sast :: "int \<times> int"
  sca :: "json counts"
  dast :: "int counts"
  totals :: "int counts"
  failures :: "string list"
  summary :: json
  written :: string
  warnings :: "warning list"
  returned :: int

definition main :: "env \<Rightarrow> exn + run" where
  "main e =
     (let (sa, w1) = resolve_sast e;
          (sc, w2) = resolve_sca e;
          (da, w3) = resolve_dast e
      in case aggregate sa sc da of
           Inl x \<Rightarrow> Inl x
         | Inr t \<Rightarrow>
             (let fs = check_thresholds t;
                  s = build_summary sa sc da t fs
              in case write_error e of
                   Some x \<Rightarrow> Inl x
                 | None \<Rightarrow>
                     Inr \<lparr>sast = sa, sca = sc, dast = da, totals = t, failures = fs,
                          summary = s, written = json_dump s,
                          warnings = w1 @ w2 @ w3,
                          returned = (if fs \<noteq> [] then 1 else 0)\<rparr>))"

text \<open>
  The \<open>__main__\<close> block: \<open>sys.exit(main())\<close>, and exit code 1 for any exception
  that \<open>main\<close> lets through.
\<close>

definition exit_code :: "env \<Rightarrow> int" where
  "exit_code e = (case main e of Inl x \<Rightarrow> 1 | Inr r \<Rightarrow> returned r)"

section \<open>A reference decoder for the summary file\<close>

text \<open>
  To say what re-parsing the written summary yields, the decoder of the standard library
  (\<open>json.loads\<close>) is modelled for the texts this embedding covers: objects, arrays,
  strings, integers, \<open>true\<close>, \<open>false\<close> and \<open>null\<close>, with the whitespace and
  the escapes of JSON. \<open>None\<close> stands for a text that Python rejects, and for one
  outside the model: a number with a fraction or an exponent, or an escape for a code
  point from 256 on. The \<open>json_decode\<close> of an environment stays arbitrary; this
  decoder is the one the round trip is stated for.
\<close>

definition is_ws :: "char \<Rightarrow> bool" where
  "is_ws c = (c = CHR '' '' \<or> c = CHR 0x09 \<or> c = CHR 0x0A \<or> c = CHR 0x0D)"

definition skip_ws :: "string \<Rightarrow> string" where
  "skip_ws s = dropWhile is_ws s"

text \<open>Four hexadecimal digits after a backslash and u, for a code point below 256.\<close>

definition hex_val :: "char \<Rightarrow> nat option" where
  "hex_val c =
     (let k = (of_char c :: nat)
      in if 48 \<le> k \<and> k \<le> 57 then Some (k - 48)
         else if 97 \<le> k \<and> k \<le> 102 then Some (k - 87)
         else if 65 \<le> k \<and> k \<le> 70 then Some (k - 55)
         else None)"

definition hex4 :: "char \<Rightarrow> char \<Rightarrow> char \<Rightarrow> char \<Rightarrow> char option" where
  "hex4 a b c d =
     (case (hex_val a, hex_val b, hex_val c, hex_val d) of
        (Some h3, Some h2, Some h1, Some h0) \<Rightarrow>
          (let n = ((h3 * 16 + h2) * 16 + h1) * 16 + h0
           in if n < 256 then Some (char_of n) else None)
      | _ \<Rightarrow> None)"

text \<open>The character a two-character escape stands for.\<close>

definition unescape :: "char \<Rightarrow> char option" where
  "unescape c =
     (if c = CHR 0x22 then Some (CHR 0x22)
      else if c = CHR 0x5C then Some (CHR 0x5C)
      else if c = CHR ''/'' then Some (CHR ''/'')
      else if c = CHR ''b'' then Some (CHR 0x08)
      else if c = CHR ''f'' then Some (CHR 0x0C)
      else if c = CHR ''n'' then Some (CHR 0x0A)
      else if c = CHR ''r'' then Some (CHR 0x0D)
      else if c = CHR ''t'' then Some (CHR 0x09)
      else None)"

text \<open>
  A string after its opening quote: up to the closing quote, with the escapes replaced;
  a raw control character is rejected.
\<close>

fun string_body :: "string \<Rightarrow> (string \<times> string) option" where
  "string_body [] = None"
| "string_body (c # cs) =
     (if c = CHR 0x22 then Some ([], cs)
      else if c = CHR 0x5C then
        (case cs of
           [] \<Rightarrow> None
         | e # r \<Rightarrow>
             if e = CHR ''u'' then
               (case r of
                  h3 # h2 # h1 # h0 # r' \<Rightarrow>
                    (case hex4 h3 h2 h1 h0 of
                       None \<Rightarrow> None
                     | Some ch \<Rightarrow>
                         (case string_body r' of
                            None \<Rightarrow> None
                          | Some (str, rest) \<Rightarrow> Some (ch # str, rest)))
                | _ \<Rightarrow> None)
             else
               (case unescape e of
                  None \<Rightarrow> None
                | Some ch \<Rightarrow>
                    (case string_body r of
                       None \<Rightarrow> None
                     | Some (str, rest) \<Rightarrow> Some (ch # str, rest))))
      else if (of_char c :: nat) < 32 then None
      else
        (case string_body cs of
           None \<Rightarrow> None
         | Some (str, rest) \<Rightarrow> Some (c # str, rest)))"

text \<open>
  An integer: an optional minus sign, then 0 or a digit other than 0 followed by digits.
  What follows must not begin a fraction or an exponent.
\<close>

definition digits_value :: "string \<Rightarrow> nat" where
  "digits_value ds = foldl (\<lambda>a c. 10 * a + digit_val c) 0 ds"

definition natural :: "string \<Rightarrow> (nat \<times> string) option" where
  "natural s =
     (case s of
        [] \<Rightarrow> None
      | c # cs \<Rightarrow>
          if c = CHR ''0'' then Some (0, cs)
          else if is_digit c then
            Some (digits_value (c # takeWhile is_digit cs), dropWhile is_digit cs)
          else None)"

definition no_fraction :: "string \<Rightarrow> bool" where
  "no_fraction s =
     (case s of [] \<Rightarrow> True | c # cs \<Rightarrow> c \<noteq> CHR ''.'' \<and> c \<noteq> CHR ''e'' \<and> c \<noteq> CHR ''E'')"

definition number :: "string \<Rightarrow> (json \<times> string) option" where
  "number s =
     (case s of
        [] \<Rightarrow> None
      | c # cs \<Rightarrow>
          (case (if c = CHR ''-'' then natural cs else natural s) of
             None \<Rightarrow> None
           | Some (n, rest) \<Rightarrow>
               if no_fraction rest
               then Some (JInt (if c = CHR ''-'' then - int n else int n), rest)
               else None))"

text \<open>The three literals, or a number.\<close>

definition scalar :: "string \<Rightarrow> (json \<times> string) option" where
  "scalar s =
     (if take 4 s = ''null'' then Some (JNull, drop 4 s)
      else if take 4 s = ''true'' then Some (JBool True, drop 4 s)
      else if take 5 s = ''false'' then Some (JBool False, drop 5 s)
      else number s)"

text \<open>
  A dict built from the members in the order they are read: a key that occurs again
  keeps its place and takes the later value.
\<close>

fun dict_set :: "(string \<times> json) list \<Rightarrow> string \<Rightarrow> json \<Rightarrow> (string \<times> json) list" where
  "dict_set [] k v = [(k, v)]"
| "dict_set ((k', v') # kvs) k v =
     (if k' = k then (k, v) # kvs else (k', v') # dict_set kvs k v)"

definition dict_of :: "(string \<times> json) list \<Rightarrow> (string \<times> json) list" where
  "dict_of pairs = foldl (\<lambda>d kv. dict_set d (fst kv) (snd kv)) [] pairs"

text \<open>
  One value, the elements of an array after its opening bracket, and the members of an
  object after its opening brace. The first argument bounds the depth of the calls;
  \<open>json_loads\<close> gives it twice the length of the text plus two, which is more than a
  text can use, since every call reads at least one character of its own.
\<close>

fun decode :: "nat \<Rightarrow> string \<Rightarrow> (json \<times> string) option"
  and elements :: "nat \<Rightarrow> string \<Rightarrow> (json list \<times> string) option"
  and members :: "nat \<Rightarrow> string \<Rightarrow> ((string \<times> json) list \<times> string) option"
where
  "decode 0 s = None"
| "decode (Suc n) s =
     (case s of
        [] \<Rightarrow> None
      | c # cs \<Rightarrow>
          if c = CHR ''{'' then
            (case skip_ws cs of
               [] \<Rightarrow> None
             | d # r \<Rightarrow>
                 if d = CHR ''}'' then Some (JObject [], r)
                 else
                   (case members n (d # r) of
                      None \<Rightarrow> None
                    | Some (kvs, rest) \<Rightarrow> Some (JObject (dict_of kvs), rest)))
          else if c = CHR ''['' then
            (case skip_ws cs of
               [] \<Rightarrow> None
             | d # r \<Rightarrow>
                 if d = CHR '']'' then Some (JArray [], r)
                 else
                   (case elements n (d # r) of
                      None \<Rightarrow> None
                    | Some (vs, rest) \<Rightarrow> Some (JArray vs, rest)))
          else if c = CHR 0x22 then
            (case string_body cs of
               None \<Rightarrow> None
             | Some (str, rest) \<Rightarrow> Some (JString str, rest))
          else scalar s)"
| "elements 0 s = None"
| "elements (Suc n) s =
     (case decode n s of
        None \<Rightarrow> None
      | Some (v, r) \<Rightarrow>
          (case skip_ws r of
             [] \<Rightarrow> None
           | d # r' \<Rightarrow>
               if d = CHR '','' then
                 (case elements n (skip_ws r') of
                    None \<Rightarrow> None
                  | Some (vs, rest) \<Rightarrow> Some (v # vs, rest))
               else if d = CHR '']'' then Some ([v], r')
               else None))"
| "members 0 s = None"
| "members (Suc n) s =
     (case s of
        [] \<Rightarrow> None
      | c # cs \<Rightarrow>
          if c \<noteq> CHR 0x22 then None
          else
            (case string_body cs of
               None \<Rightarrow> None
             | Some (k, r) \<Rightarrow>
                 (case skip_ws r of
                    [] \<Rightarrow> None
                  | d # r1 \<Rightarrow>
                      if d \<noteq> CHR '':'' then None
                      else
                        (case decode n (skip_ws r1) of
                           None \<Rightarrow> None
                         | Some (v, r2) \<Rightarrow>
                             (case skip_ws r2 of
                                [] \<Rightarrow> None
                              | d' # r3 \<Rightarrow>
                                  if d' = CHR '','' then
                                    (case members n (skip_ws r3) of
                                       None \<Rightarrow> None
                                     | Some (kvs, rest) \<Rightarrow> Some ((k, v) # kvs, rest))
                                  else if d' = CHR ''}'' then Some ([(k, v)], r3)
                                  else None)))))"

text \<open>The whole text is one value between optional whitespace.\<close>

definition json_loads :: "string \<Rightarrow> json option" where
  "json_loads s =
     (case decode (2 * length s + 2) (skip_ws s) of
        None \<Rightarrow> None
      | Some (v, rest) \<Rightarrow> if skip_ws rest = [] then Some v else None)"

section \<open>Notions the statements use\<close>

text \<open>The member of a JSON object under a key, as a reader of the summary file sees it.\<close>

fun entry :: "json \<Rightarrow> string \<Rightarrow> json option" where
  "entry (JObject kvs) k = map_of kvs k"
| "entry _ k = None"

text \<open>
  The four severity buckets in the order the specification fixes, with the name each
  carries in a failure description and its count in a \<open>counts\<close> value.
\<close>

datatype bucket = Critical | High | Medium | Low

fun bucket_name :: "bucket \<Rightarrow> string" where
  "bucket_name Critical = ''Critical''"
| "bucket_name High = ''High''"
| "bucket_name Medium = ''Medium''"
| "bucket_name Low = ''Low''"

fun bucket_count :: "bucket \<Rightarrow> int counts \<Rightarrow> int" where
  "bucket_count Critical t = critical t"
| "bucket_count High t = high t"
| "bucket_count Medium t = medium t"
| "bucket_count Low t = low t"

text \<open>The buckets whose total strictly exceeds the threshold, in the fixed order.\<close>

definition exceeded :: "int counts \<Rightarrow> bucket list" where
  "exceeded t =
     filter (\<lambda>b. bucket_count b t > bucket_count b thresholds) [Critical, High, Medium, Low]"

text \<open>A failure description: the bucket's name, the observed total, the threshold.\<close>

definition failure_entry :: "bucket \<Rightarrow> int counts \<Rightarrow> string" where
  "failure_entry b t =
     bucket_name b @ '' vulnerabilities: '' @ str_int (bucket_count b t)
       @ '' exceeds threshold of '' @ str_int (bucket_count b thresholds)"
















text \<open>
  No object in the value has a key twice (a Python dict never has), and the texts that
  may follow an encoded value inside an encoding: a comma, a new line, or nothing.
\<close>

fun distinct_keys :: "json \<Rightarrow> bool" where
  "distinct_keys (JArray xs) = list_all distinct_keys xs"
| "distinct_keys (JObject kvs) =
     (distinct (map fst kvs) \<and> list_all (\<lambda>kv. distinct_keys (snd kv)) kvs)"
| "distinct_keys _ = True"

definition delimited :: "string \<Rightarrow> bool" where
  "delimited rest = (case rest of [] \<Rightarrow> True | c # cs \<Rightarrow> c = CHR '','' \<or> c = CHR 0x0A)"

text \<open>The first character of an encoding begins a value and is not whitespace.\<close>

definition opener :: "char \<Rightarrow> bool" where
  "opener c = (\<not> is_ws c \<and> c \<noteq> CHR '']'' \<and> c \<noteq> CHR ''}'' \<and> c \<noteq> CHR '','')"

section \<open>Example environments\<close>

text \<open>No input path exists.\<close>

definition absent_env :: env where
  "absent_env = \<lparr>files = Map.empty, json_decode = Map.empty, write_error = None\<rparr>"

text \<open>
  The specification's example: only the Semgrep report exists, with two results of
  severity ERROR and one of severity WARNING.
\<close>

definition semgrep_text :: string where
  \<open>semgrep_text = ''{"results": [{"extra": {"severity": "ERROR"}}, {"extra": {"severity": "WARNING"}}, {"extra": {"severity": "ERROR"}}]}''\<close>

definition semgrep_doc :: json where
  "semgrep_doc =
     JObject [(''results'', JArray
       [JObject [(''extra'', JObject [(''severity'', JString ''ERROR'')])],
        JObject [(''extra'', JObject [(''severity'', JString ''WARNING'')])],
        JObject [(''extra'', JObject [(''severity'', JString ''ERROR'')])]])]"

definition semgrep_env :: env where
  "semgrep_env =
     \<lparr>files = [''sast-results/semgrep-results.json'' \<mapsto> Text semgrep_text],
      json_decode = [semgrep_text \<mapsto> semgrep_doc],
      write_error = None\<rparr>"

text \<open>No input path exists and the summary file cannot be written.\<close>

definition read_only_env :: env where
  "read_only_env = \<lparr>files = Map.empty, json_decode = Map.empty, write_error = Some OSError\<rparr>"

text \<open>All ten plain-text count files exist and hold the numbers 1 to 10.\<close>

definition plain_env :: env where
  "plain_env =
     \<lparr>files =
        [''sast-results/sast-critical.txt'' \<mapsto> Text ''1'',
         ''sast-results/sast-high.txt'' \<mapsto> Text ''2'',
         ''sca-results/sca-critical.txt'' \<mapsto> Text ''3'',
         ''sca-results/sca-high.txt'' \<mapsto> Text ''4'',
         ''sca-results/sca-medium.txt'' \<mapsto> Text ''5'',
         ''sca-results/sca-low.txt'' \<mapsto> Text ''6'',
         ''dast-results/dast-critical.txt'' \<mapsto> Text ''7'',
         ''dast-results/dast-high.txt'' \<mapsto> Text ''8'',
         ''dast-results/dast-medium.txt'' \<mapsto> Text ''9'',
         ''dast-results/dast-low.txt'' \<mapsto> Text ''10''],
      json_decode = Map.empty,
      write_error = None\<rparr>"

text \<open>Only \<open>sast-results/sast-critical.txt\<close> exists, and it holds \<open>-5\<close>.\<close>

definition negative_env :: env where
  "negative_env =
     \<lparr>files = [''sast-results/sast-critical.txt'' \<mapsto> Text ''-5''],
      json_decode = Map.empty, write_error = None\<rparr>"


text \<open>
  Only the ZAP report exists: two sites with three alerts each, the riskcodes being
  "3", "1", 2 and "0", "4", "3".
\<close>

definition zap_text :: string where
  \<open>zap_text = ''{"site": [{"alerts": [{"riskcode": "3"}, {"riskcode": "1"}, {"riskcode": 2}]}, {"alerts": [{"riskcode": "0"}, {"riskcode": "4"}, {"riskcode": "3"}]}]}''\<close>

definition zap_doc :: json where
  "zap_doc =
     JObject [(''site'', JArray
       [JObject [(''alerts'', JArray
          [JObject [(''riskcode'', JString ''3'')],
           JObject [(''riskcode'', JString ''1'')],
           JObject [(''riskcode'', JInt 2)]])],
        JObject [(''alerts'', JArray
          [JObject [(''riskcode'', JString ''0'')],
           JObject [(''riskcode'', JString ''4'')],
           JObject [(''riskcode'', JString ''3'')]])]])]"

definition zap_env :: env where
  "zap_env =
     \<lparr>files = [''dast-results/zap-report.json'' \<mapsto> Text zap_text],
      json_decode = [zap_text \<mapsto> zap_doc],
      write_error = None\<rparr>"

text \<open>
  Only the ZAP report exists: one site with two alerts, the riskcodes being "3" and
  "high".
\<close>

definition zap_high_text :: string where
  \<open>zap_high_text = ''{"site": [{"alerts": [{"riskcode": "3"}, {"riskcode": "high"}]}]}''\<close>

definition zap_high_doc :: json where
  "zap_high_doc =
     JObject [(''site'', JArray
       [JObject [(''alerts'', JArray
          [JObject [(''riskcode'', JString ''3'')],
           JObject [(''riskcode'', JString ''high'')]])]])]"


text \<open>
  The SCA category has the plain-text file \<open>sca-high.txt\<close>, holding 5, and the
  npm report, holding 2 high and 1 moderate finding; \<open>sca-critical.txt\<close> does not
  exist.
\<close>

definition npm_text :: string where
  \<open>npm_text = ''{"metadata": {"vulnerabilities": {"high": 2, "moderate": 1}}}''\<close>

definition npm_doc :: json where
  "npm_doc =
     JObject [(''metadata'', JObject [(''vulnerabilities'',
       JObject [(''high'', JInt 2), (''moderate'', JInt 1)])])]"

definition high_only_env :: env where
  "high_only_env =
     \<lparr>files = [''sca-results/sca-high.txt'' \<mapsto> Text ''5'',
               ''sca-results/npm-audit-results.json'' \<mapsto> Text npm_text],
      json_decode = [npm_text \<mapsto> npm_doc],
      write_error = None\<rparr>"

text \<open>
  Every category has a damaged input: a count file that holds no integer, a report that
  is not JSON, a count file that cannot be read.
\<close>

definition garbled_env :: env where
  "garbled_env =
     \<lparr>files = [''sast-results/sast-critical.txt'' \<mapsto> Text ''abc'',
               ''sca-results/npm-audit-results.json'' \<mapsto> Text ''{not json'',
               ''dast-results/dast-critical.txt'' \<mapsto> Unreadable OSError],
      json_decode = Map.empty,
      write_error = None\<rparr>"

text \<open>
  The npm report is valid JSON, and its critical count is the string "1".
\<close>

definition npm_string_text :: string where
  \<open>npm_string_text = ''{"metadata": {"vulnerabilities": {"critical": "1"}}}''\<close>

definition npm_string_doc :: json where
  "npm_string_doc =
     JObject [(''metadata'', JObject [(''vulnerabilities'',
       JObject [(''critical'', JString ''1'')])])]"

definition npm_string_env :: env where
  "npm_string_env =
     \<lparr>files = [''sca-results/npm-audit-results.json'' \<mapsto> Text npm_string_text],
      json_decode = [npm_string_text \<mapsto> npm_string_doc],
      write_error = None\<rparr>"

text \<open>
  The ten count files of \<open>plain_env\<close>, and the Semgrep report beside them.
\<close>

definition both_env :: env where
  "both_env =
     plain_env\<lparr>files := (files plain_env)
                   (''sast-results/semgrep-results.json'' \<mapsto> Text semgrep_text),
               json_decode := [semgrep_text \<mapsto> semgrep_doc]\<rparr>"

section \<open>Facts about main\<close>

lemma main_Inr:
  assumes "main e = Inr r"
  shows "sast r = fst (resolve_sast e)"
    and "sca r = fst (resolve_sca e)"
    and "dast r = fst (resolve_dast e)"
    and "aggregate (sast r) (sca r) (dast r) = Inr (totals r)"
    and "failures r = check_thresholds (totals r)"
    and "summary r = build_summary (sast r) (sca r) (dast r) (totals r) (failures r)"
    and "written r = json_dump (summary r)"
    and "warnings r = snd (resolve_sast e) @ snd (resolve_sca e) @ snd (resolve_dast e)"
    and "returned r = (if failures r \<noteq> [] then 1 else 0)"
    and "write_error e = None"
  using assms
  by (auto simp: main_def Let_def split: prod.splits sum.splits option.splits)

lemma aggregate_Inr:
  assumes "aggregate sa sc da = Inr t"
  shows "\<exists>c h m l. py_num (critical sc) = Inr c \<and> py_num (high sc) = Inr h
     \<and> py_num (medium sc) = Inr m \<and> py_num (low sc) = Inr l
     \<and> t = \<lparr>critical = fst sa + c + critical da, high = snd sa + h + high da,
            medium = m + medium da, low = l + low da\<rparr>"
  using assms by (auto simp: aggregate_def split: sum.splits)

lemma check_thresholds_exceeded:
  "check_thresholds t = map (\<lambda>b. failure_entry b t) (exceeded t)"
  by (simp add: check_thresholds_def exceeded_def failure_entry_def failure_message_def Let_def)

lemma check_thresholds_empty:
  "(check_thresholds t = []) =
     (critical t \<le> 0 \<and> high t \<le> 0 \<and> medium t \<le> 0 \<and> low t \<le> 0)"
  by (auto simp add: check_thresholds_def thresholds_def Let_def)

lemma entry_passed: "entry (build_summary sa sc da t fs) ''passed'' = Some (JBool (fs = []))"
  by (simp add: build_summary_def)

lemma entry_failures:
  "entry (build_summary sa sc da t fs) ''failures'' = Some (JArray (map JString fs))"
  by (simp add: build_summary_def)

lemma semgrep_env_totals:
  "map_sum id totals (main semgrep_env) = Inr \<lparr>critical = 2, high = 1, medium = 0, low = 0\<rparr>"
  by code_simp

section \<open>The claims\<close>

subsection \<open>The exit code\<close>

text \<open>
  C6. The process exit code is 0 exactly when \<open>main\<close> returns and the gate passed
  (\<open>passed\<close> is true in the summary), and 1 exactly when the gate failed or an
  exception left \<open>main\<close>; there is no other exit code.
\<close>

theorem exit_code_meaning:
  "(exit_code e = 0 \<or> exit_code e = 1)
   \<and> (exit_code e = 0) =
       (\<exists>r. main e = Inr r \<and> entry (summary r) ''passed'' = Some (JBool True))
   \<and> (exit_code e = 1) =
       ((\<exists>x. main e = Inl x)
        \<or> (\<exists>r. main e = Inr r \<and> entry (summary r) ''passed'' = Some (JBool False)))"
proof (cases "main e")
  case (Inl x)
  then show ?thesis by (simp add: exit_code_def)
next
  case (Inr r)
  from main_Inr(6,9)[OF Inr] show ?thesis
    using Inr by (simp add: exit_code_def entry_passed)
qed

lemma exit_code_examples:
  "map_sum id (\<lambda>r. entry (summary r) ''passed'') (main absent_env)
     = Inr (Some (JBool True))"
  "map_sum id (\<lambda>r. entry (summary r) ''passed'') (main semgrep_env)
     = Inr (Some (JBool False))"
  "main read_only_env = Inl OSError"
  by code_simp+

theorem exit_code_meaning_witness:
  "exit_code absent_env = 0 \<and> exit_code semgrep_env = 1 \<and> exit_code read_only_env = 1"
proof -
  from exit_code_examples(1)
  have "\<exists>r. main absent_env = Inr r \<and> entry (summary r) ''passed'' = Some (JBool True)"
    by (cases "main absent_env") auto
  with exit_code_meaning [of absent_env] have 1: "exit_code absent_env = 0" by blast
  from exit_code_examples(2)
  have "\<exists>r. main semgrep_env = Inr r \<and> entry (summary r) ''passed'' = Some (JBool False)"
    by (cases "main semgrep_env") auto
  with exit_code_meaning [of semgrep_env] have 2: "exit_code semgrep_env = 1" by blast
  from exit_code_examples(3) exit_code_meaning [of read_only_env]
  have 3: "exit_code read_only_env = 1" by blast
  from 1 2 3 show ?thesis by blast
qed

subsection \<open>The failure list\<close>

text \<open>
  C7. When \<open>main\<close> returns, \<open>failures\<close> holds exactly one description per bucket
  whose total exceeds its threshold, in the order critical, high, medium, low, each made
  of the bucket's name, the observed total and the threshold; the summary carries the
  same list.
\<close>

theorem failures_in_fixed_order:
  assumes "main e = Inr r"
  shows "failures r = map (\<lambda>b. failure_entry b (totals r)) (exceeded (totals r))
    \<and> entry (summary r) ''failures'' = Some (JArray (map JString (failures r)))"
  using main_Inr(5,6)[OF assms] by (simp add: check_thresholds_exceeded entry_failures)

theorem failures_in_fixed_order_witness:
  "\<exists>r. main semgrep_env = Inr r
     \<and> failures r = [''Critical vulnerabilities: 2 exceeds threshold of 0'',
                      ''High vulnerabilities: 1 exceeds threshold of 0'']"
proof -
  obtain r where r: "main semgrep_env = Inr r"
    and t: "totals r = \<lparr>critical = 2, high = 1, medium = 0, low = 0\<rparr>"
    using semgrep_env_totals by (cases "main semgrep_env") auto
  have "map (\<lambda>b. failure_entry b \<lparr>critical = 2, high = 1, medium = 0, low = 0\<rparr>)
          (exceeded \<lparr>critical = 2, high = 1, medium = 0, low = 0\<rparr>)
        = [''Critical vulnerabilities: 2 exceeds threshold of 0'',
           ''High vulnerabilities: 1 exceeds threshold of 0'']"
    by code_simp
  with failures_in_fixed_order [OF r] t r show ?thesis by simp
qed

subsection \<open>Totals and the gate\<close>

lemma entry_totals:
  "entry (build_summary sa sc da t fs) ''total_critical'' = Some (JInt (critical t))"
  "entry (build_summary sa sc da t fs) ''total_high'' = Some (JInt (high t))"
  "entry (build_summary sa sc da t fs) ''total_medium'' = Some (JInt (medium t))"
  "entry (build_summary sa sc da t fs) ''total_low'' = Some (JInt (low t))"
  "entry (build_summary sa sc da t fs) ''total'' =
     Some (JInt (critical t + high t + medium t + low t))"
  by (simp_all add: build_summary_def)

lemma entry_categories:
  "entry (build_summary sa sc da t fs) ''sast'' =
     Some (JObject [(''critical'', JInt (fst sa)), (''high'', JInt (snd sa)),
                    (''medium'', JInt 0), (''low'', JInt 0)])"
  "entry (build_summary sa sc da t fs) ''sca'' =
     Some (JObject [(''critical'', critical sc), (''high'', high sc),
                    (''medium'', medium sc), (''low'', low sc)])"
  "entry (build_summary sa sc da t fs) ''dast'' =
     Some (JObject [(''critical'', JInt (critical da)), (''high'', JInt (high da)),
                    (''medium'', JInt (medium da)), (''low'', JInt (low da))])"
  by (simp_all add: build_summary_def counts_json_def)

lemma failure_entry_in_check:
  "(failure_entry b t \<in> set (check_thresholds t))
     = (bucket_count b t > bucket_count b thresholds)"
  by (cases b)
    (auto simp add: check_thresholds_def failure_entry_def failure_message_def Let_def)

lemma plain_env_counts:
  "map_sum id sast (main plain_env) = Inr (1, 2)"
  "map_sum id sca (main plain_env) =
     Inr \<lparr>critical = JInt 3, high = JInt 4, medium = JInt 5, low = JInt 6\<rparr>"
  "map_sum id dast (main plain_env) = Inr \<lparr>critical = 7, high = 8, medium = 9, low = 10\<rparr>"
  by code_simp+

text \<open>
  C2. When \<open>main\<close> returns, each total is the sum of the category counts of its
  severity, where SAST contributes nothing to medium and low, and an SCA count
  contributes the int Python's addition takes it for; the summary holds these totals
  and counts, with 0 for the SAST medium and low entries.
\<close>

theorem totals_are_sums:
  assumes "main e = Inr r"
  shows "\<exists>c h m l.
      py_num (critical (sca r)) = Inr c \<and> py_num (high (sca r)) = Inr h
    \<and> py_num (medium (sca r)) = Inr m \<and> py_num (low (sca r)) = Inr l
    \<and> critical (totals r) = fst (sast r) + c + critical (dast r)
    \<and> high (totals r) = snd (sast r) + h + high (dast r)
    \<and> medium (totals r) = 0 + m + medium (dast r)
    \<and> low (totals r) = 0 + l + low (dast r)
    \<and> entry (summary r) ''total_critical'' = Some (JInt (critical (totals r)))
    \<and> entry (summary r) ''total_high'' = Some (JInt (high (totals r)))
    \<and> entry (summary r) ''total_medium'' = Some (JInt (medium (totals r)))
    \<and> entry (summary r) ''total_low'' = Some (JInt (low (totals r)))
    \<and> entry (summary r) ''sast'' =
         Some (JObject [(''critical'', JInt (fst (sast r))), (''high'', JInt (snd (sast r))),
                        (''medium'', JInt 0), (''low'', JInt 0)])
    \<and> entry (summary r) ''sca'' =
         Some (JObject [(''critical'', critical (sca r)), (''high'', high (sca r)),
                        (''medium'', medium (sca r)), (''low'', low (sca r))])
    \<and> entry (summary r) ''dast'' =
         Some (JObject [(''critical'', JInt (critical (dast r))),
                        (''high'', JInt (high (dast r))),
                        (''medium'', JInt (medium (dast r))),
                        (''low'', JInt (low (dast r)))])"
proof -
  from aggregate_Inr [OF main_Inr(4) [OF assms]]
  obtain c h m l where n: "py_num (critical (sca r)) = Inr c" "py_num (high (sca r)) = Inr h"
      "py_num (medium (sca r)) = Inr m" "py_num (low (sca r)) = Inr l"
    and t: "totals r = \<lparr>critical = fst (sast r) + c + critical (dast r),
        high = snd (sast r) + h + high (dast r),
        medium = m + medium (dast r), low = l + low (dast r)\<rparr>"
    by blast
  have s: "summary r = build_summary (sast r) (sca r) (dast r) (totals r) (failures r)"
    by (rule main_Inr(6) [OF assms])
  have "critical (totals r) = fst (sast r) + c + critical (dast r)"
    "high (totals r) = snd (sast r) + h + high (dast r)"
    "medium (totals r) = 0 + m + medium (dast r)"
    "low (totals r) = 0 + l + low (dast r)"
    by (simp_all add: t)
  with n show ?thesis
    unfolding s entry_totals entry_categories by blast
qed

theorem totals_are_sums_witness:
  "\<exists>r. main plain_env = Inr r
     \<and> sast r = (1, 2)
     \<and> sca r = \<lparr>critical = JInt 3, high = JInt 4, medium = JInt 5, low = JInt 6\<rparr>
     \<and> dast r = \<lparr>critical = 7, high = 8, medium = 9, low = 10\<rparr>
     \<and> totals r = \<lparr>critical = 11, high = 14, medium = 14, low = 16\<rparr>
     \<and> entry (summary r) ''total_critical'' = Some (JInt 11)"
proof -
  obtain r where r: "main plain_env = Inr r"
    and c: "sast r = (1, 2)"
      "sca r = \<lparr>critical = JInt 3, high = JInt 4, medium = JInt 5, low = JInt 6\<rparr>"
      "dast r = \<lparr>critical = 7, high = 8, medium = 9, low = 10\<rparr>"
    using plain_env_counts by (cases "main plain_env") auto
  from totals_are_sums [OF r] c
  have "totals r = \<lparr>critical = 11, high = 14, medium = 14, low = 16\<rparr>"
    "entry (summary r) ''total_critical'' = Some (JInt 11)"
    by auto
  with r c show ?thesis by blast
qed

text \<open>
  C1, as the code has it. When \<open>main\<close> returns, \<open>passed\<close> is true exactly when
  no total strictly exceeds its threshold, the thresholds being all 0; \<open>passed\<close> is
  true exactly when \<open>failures\<close> is empty; a bucket has its failure description in
  the list exactly when its total strictly exceeds its threshold. For integer totals,
  passing is the same as all four totals being at most their thresholds; it is the same
  as all totals being exactly 0 only when, besides, no total is negative: a count file
  may hold a negative integer, and a total below 0 passes.
\<close>

theorem gate_passes_iff:
  assumes "main e = Inr r"
  shows "entry (summary r) ''passed'' =
      Some (JBool (\<not> critical (totals r) > critical thresholds
                 \<and> \<not> high (totals r) > high thresholds
                 \<and> \<not> medium (totals r) > medium thresholds
                 \<and> \<not> low (totals r) > low thresholds))
    \<and> entry (summary r) ''passed'' =
      Some (JBool (critical (totals r) \<le> critical thresholds
                 \<and> high (totals r) \<le> high thresholds
                 \<and> medium (totals r) \<le> medium thresholds
                 \<and> low (totals r) \<le> low thresholds))
    \<and> critical thresholds = 0 \<and> high thresholds = 0
    \<and> medium thresholds = 0 \<and> low thresholds = 0
    \<and> entry (summary r) ''passed'' = Some (JBool (failures r = []))
    \<and> (\<forall>b. (failure_entry b (totals r) \<in> set (failures r))
             = (bucket_count b (totals r) > bucket_count b thresholds))
    \<and> (0 \<le> critical (totals r) \<and> 0 \<le> high (totals r)
        \<and> 0 \<le> medium (totals r) \<and> 0 \<le> low (totals r)
        \<longrightarrow> entry (summary r) ''passed'' =
              Some (JBool (critical (totals r) = 0 \<and> high (totals r) = 0
                         \<and> medium (totals r) = 0 \<and> low (totals r) = 0)))"
proof -
  have s: "summary r = build_summary (sast r) (sca r) (dast r) (totals r) (failures r)"
    and f: "failures r = check_thresholds (totals r)"
    using main_Inr(5,6) [OF assms] by simp_all
  have p: "entry (summary r) ''passed'' = Some (JBool (failures r = []))"
    unfolding s by (rule entry_passed)
  have e: "(failures r = []) = (critical (totals r) \<le> 0 \<and> high (totals r) \<le> 0
      \<and> medium (totals r) \<le> 0 \<and> low (totals r) \<le> 0)"
    unfolding f by (rule check_thresholds_empty)
  have m: "\<forall>b. (failure_entry b (totals r) \<in> set (failures r))
             = (bucket_count b (totals r) > bucket_count b thresholds)"
    unfolding f by (simp add: failure_entry_in_check)
  show ?thesis
    using p e m by (auto simp add: thresholds_def)
qed

theorem gate_passes_iff_witness:
  "\<exists>r. main semgrep_env = Inr r
     \<and> totals r = \<lparr>critical = 2, high = 1, medium = 0, low = 0\<rparr>
     \<and> entry (summary r) ''passed'' = Some (JBool False)
     \<and> failure_entry Critical (totals r) \<in> set (failures r)
     \<and> failure_entry Medium (totals r) \<notin> set (failures r)"
proof -
  obtain r where r: "main semgrep_env = Inr r"
    and t: "totals r = \<lparr>critical = 2, high = 1, medium = 0, low = 0\<rparr>"
    using semgrep_env_totals by (cases "main semgrep_env") auto
  from gate_passes_iff [OF r] t
  have "entry (summary r) ''passed'' = Some (JBool False)"
    "failure_entry Critical (totals r) \<in> set (failures r)"
    "failure_entry Medium (totals r) \<notin> set (failures r)"
    by (simp_all add: thresholds_def)
  with r t show ?thesis by blast
qed

text \<open>
  The claim C1 as stated fails: with \<open>-5\<close> in \<open>sast-results/sast-critical.txt\<close> the
  critical total is \<open>-5\<close>, not 0, and the gate passes.
\<close>

theorem gate_passes_below_zero:
  "map_sum id summary (main negative_env) =
     Inr (JObject
       [(''total_critical'', JInt (- 5)), (''total_high'', JInt 0),
        (''total_medium'', JInt 0), (''total_low'', JInt 0), (''total'', JInt (- 5)),
        (''sast'', JObject [(''critical'', JInt (- 5)), (''high'', JInt 0),
                            (''medium'', JInt 0), (''low'', JInt 0)]),
        (''sca'', JObject [(''critical'', JInt 0), (''high'', JInt 0),
                           (''medium'', JInt 0), (''low'', JInt 0)]),
        (''dast'', JObject [(''critical'', JInt 0), (''high'', JInt 0),
                            (''medium'', JInt 0), (''low'', JInt 0)]),
        (''thresholds'', JObject [(''critical'', JInt 0), (''high'', JInt 0),
                                  (''medium'', JInt 0), (''low'', JInt 0)]),
        (''passed'', JBool True), (''failures'', JArray [])])
   \<and> exit_code negative_env = 0"
  by code_simp

subsection \<open>The sign of the counts\<close>




















subsection \<open>The dynamic-analysis parser\<close>


























subsection \<open>Where the counts come from\<close>

lemma read_count_files:
  "p \<noteq> q \<Longrightarrow>
   read_count (e\<lparr>files := (files e)(q := x), json_decode := d\<rparr>) p n = read_count e p n"
  by (simp add: read_count_def read_count_try_def open_read_def)

text \<open>
  C3, as the code has it. What decides is the category's critical count file, not any
  count file: when it exists, the category's counts are what \<open>read_count\<close> gives
  for the category's count files, and the outcome does not depend on the JSON report,
  whatever it holds and whatever the decoder would make of it (it is never parsed);
  when it does not exist and the report does, the report is parsed; when neither
  exists, the counts are zero and nothing is printed.
\<close>

theorem input_resolution:
  "(exists e ''sast-results/sast-critical.txt'' \<longrightarrow>
      fst (resolve_sast e) =
        (fst (read_count e ''sast-results/sast-critical.txt'' 0),
         fst (read_count e ''sast-results/sast-high.txt'' 0))
      \<and> resolve_sast (e\<lparr>files := (files e)(''sast-results/semgrep-results.json'' := x),
                         json_decode := d\<rparr>) = resolve_sast e)
   \<and> (\<not> exists e ''sast-results/sast-critical.txt''
        \<and> exists e ''sast-results/semgrep-results.json'' \<longrightarrow>
      resolve_sast e = parse_semgrep_results e ''sast-results/semgrep-results.json'')
   \<and> (\<not> exists e ''sast-results/sast-critical.txt''
        \<and> \<not> exists e ''sast-results/semgrep-results.json'' \<longrightarrow>
      resolve_sast e = ((0, 0), []))
   \<and> (exists e ''sca-results/sca-critical.txt'' \<longrightarrow>
      fst (resolve_sca e) =
        \<lparr>critical = JInt (fst (read_count e ''sca-results/sca-critical.txt'' 0)),
         high = JInt (fst (read_count e ''sca-results/sca-high.txt'' 0)),
         medium = JInt (fst (read_count e ''sca-results/sca-medium.txt'' 0)),
         low = JInt (fst (read_count e ''sca-results/sca-low.txt'' 0))\<rparr>
      \<and> resolve_sca (e\<lparr>files := (files e)(''sca-results/npm-audit-results.json'' := x),
                        json_decode := d\<rparr>) = resolve_sca e)
   \<and> (\<not> exists e ''sca-results/sca-critical.txt''
        \<and> exists e ''sca-results/npm-audit-results.json'' \<longrightarrow>
      resolve_sca e = parse_npm_audit_results e ''sca-results/npm-audit-results.json'')
   \<and> (\<not> exists e ''sca-results/sca-critical.txt''
        \<and> \<not> exists e ''sca-results/npm-audit-results.json'' \<longrightarrow>
      resolve_sca e = (\<lparr>critical = JInt 0, high = JInt 0, medium = JInt 0, low = JInt 0\<rparr>, []))
   \<and> (exists e ''dast-results/dast-critical.txt'' \<longrightarrow>
      fst (resolve_dast e) =
        \<lparr>critical = fst (read_count e ''dast-results/dast-critical.txt'' 0),
         high = fst (read_count e ''dast-results/dast-high.txt'' 0),
         medium = fst (read_count e ''dast-results/dast-medium.txt'' 0),
         low = fst (read_count e ''dast-results/dast-low.txt'' 0)\<rparr>
      \<and> resolve_dast (e\<lparr>files := (files e)(''dast-results/zap-report.json'' := x),
                         json_decode := d\<rparr>) = resolve_dast e)
   \<and> (\<not> exists e ''dast-results/dast-critical.txt''
        \<and> exists e ''dast-results/zap-report.json'' \<longrightarrow>
      resolve_dast e = parse_zap_results e ''dast-results/zap-report.json'')
   \<and> (\<not> exists e ''dast-results/dast-critical.txt''
        \<and> \<not> exists e ''dast-results/zap-report.json'' \<longrightarrow>
      resolve_dast e = (\<lparr>critical = 0, high = 0, medium = 0, low = 0\<rparr>, []))"
proof -
  have sast: "exists e ''sast-results/sast-critical.txt'' \<Longrightarrow>
      fst (resolve_sast e) =
        (fst (read_count e ''sast-results/sast-critical.txt'' 0),
         fst (read_count e ''sast-results/sast-high.txt'' 0))
      \<and> resolve_sast (e\<lparr>files := (files e)(''sast-results/semgrep-results.json'' := x),
                         json_decode := d\<rparr>) = resolve_sast e"
    by (simp add: resolve_sast_def exists_def read_count_files Let_def split: prod.splits)
  have sca: "exists e ''sca-results/sca-critical.txt'' \<Longrightarrow>
      fst (resolve_sca e) =
        \<lparr>critical = JInt (fst (read_count e ''sca-results/sca-critical.txt'' 0)),
         high = JInt (fst (read_count e ''sca-results/sca-high.txt'' 0)),
         medium = JInt (fst (read_count e ''sca-results/sca-medium.txt'' 0)),
         low = JInt (fst (read_count e ''sca-results/sca-low.txt'' 0))\<rparr>
      \<and> resolve_sca (e\<lparr>files := (files e)(''sca-results/npm-audit-results.json'' := x),
                        json_decode := d\<rparr>) = resolve_sca e"
    by (simp add: resolve_sca_def exists_def read_count_files Let_def split: prod.splits)
  have dast: "exists e ''dast-results/dast-critical.txt'' \<Longrightarrow>
      fst (resolve_dast e) =
        \<lparr>critical = fst (read_count e ''dast-results/dast-critical.txt'' 0),
         high = fst (read_count e ''dast-results/dast-high.txt'' 0),
         medium = fst (read_count e ''dast-results/dast-medium.txt'' 0),
         low = fst (read_count e ''dast-results/dast-low.txt'' 0)\<rparr>
      \<and> resolve_dast (e\<lparr>files := (files e)(''dast-results/zap-report.json'' := x),
                         json_decode := d\<rparr>) = resolve_dast e"
    by (simp add: resolve_dast_def exists_def read_count_files Let_def split: prod.splits)
  have rest:
    "\<not> exists e ''sast-results/sast-critical.txt''
        \<and> exists e ''sast-results/semgrep-results.json'' \<longrightarrow>
      resolve_sast e = parse_semgrep_results e ''sast-results/semgrep-results.json''"
    "\<not> exists e ''sast-results/sast-critical.txt''
        \<and> \<not> exists e ''sast-results/semgrep-results.json'' \<longrightarrow>
      resolve_sast e = ((0, 0), [])"
    "\<not> exists e ''sca-results/sca-critical.txt''
        \<and> exists e ''sca-results/npm-audit-results.json'' \<longrightarrow>
      resolve_sca e = parse_npm_audit_results e ''sca-results/npm-audit-results.json''"
    "\<not> exists e ''sca-results/sca-critical.txt''
        \<and> \<not> exists e ''sca-results/npm-audit-results.json'' \<longrightarrow>
      resolve_sca e = (\<lparr>critical = JInt 0, high = JInt 0, medium = JInt 0, low = JInt 0\<rparr>, [])"
    "\<not> exists e ''dast-results/dast-critical.txt''
        \<and> exists e ''dast-results/zap-report.json'' \<longrightarrow>
      resolve_dast e = parse_zap_results e ''dast-results/zap-report.json''"
    "\<not> exists e ''dast-results/dast-critical.txt''
        \<and> \<not> exists e ''dast-results/zap-report.json'' \<longrightarrow>
      resolve_dast e = (\<lparr>critical = 0, high = 0, medium = 0, low = 0\<rparr>, [])"
    by (simp_all add: resolve_sast_def resolve_sca_def resolve_dast_def
        zero_json_def zero_counts_def)
  from sast sca dast rest show ?thesis by blast
qed

lemma input_resolution_facts:
  "exists plain_env ''sast-results/sast-critical.txt''"
  "exists plain_env ''sca-results/sca-critical.txt''"
  "exists plain_env ''dast-results/dast-critical.txt''"
  "resolve_sast plain_env = ((1, 2), [])"
  "\<not> exists semgrep_env ''sast-results/sast-critical.txt''"
  "exists semgrep_env ''sast-results/semgrep-results.json''"
  "parse_semgrep_results semgrep_env ''sast-results/semgrep-results.json'' = ((2, 1), [])"
  "\<not> exists high_only_env ''sca-results/sca-critical.txt''"
  "exists high_only_env ''sca-results/npm-audit-results.json''"
  "parse_npm_audit_results high_only_env ''sca-results/npm-audit-results.json''
     = (\<lparr>critical = JInt 0, high = JInt 2, medium = JInt 1, low = JInt 0\<rparr>, [])"
  "\<not> exists zap_env ''dast-results/dast-critical.txt''"
  "exists zap_env ''dast-results/zap-report.json''"
  "parse_zap_results zap_env ''dast-results/zap-report.json''
     = (\<lparr>critical = 2, high = 1, medium = 1, low = 1\<rparr>, [])"
  "\<not> exists absent_env ''sast-results/sast-critical.txt''"
  "\<not> exists absent_env ''sast-results/semgrep-results.json''"
  "\<not> exists absent_env ''sca-results/sca-critical.txt''"
  "\<not> exists absent_env ''sca-results/npm-audit-results.json''"
  "\<not> exists absent_env ''dast-results/dast-critical.txt''"
  "\<not> exists absent_env ''dast-results/zap-report.json''"
  by code_simp+

lemma plain_env_reads:
  "read_count plain_env ''sca-results/sca-critical.txt'' 0 = (3, [])"
  "read_count plain_env ''sca-results/sca-high.txt'' 0 = (4, [])"
  "read_count plain_env ''sca-results/sca-medium.txt'' 0 = (5, [])"
  "read_count plain_env ''sca-results/sca-low.txt'' 0 = (6, [])"
  "read_count plain_env ''dast-results/dast-critical.txt'' 0 = (7, [])"
  "read_count plain_env ''dast-results/dast-high.txt'' 0 = (8, [])"
  "read_count plain_env ''dast-results/dast-medium.txt'' 0 = (9, [])"
  "read_count plain_env ''dast-results/dast-low.txt'' 0 = (10, [])"
  by code_simp+

theorem input_resolution_witness:
  "exists both_env ''sast-results/sast-critical.txt''
   \<and> exists both_env ''sast-results/semgrep-results.json''
   \<and> resolve_sast both_env = ((1, 2), [])
   \<and> exists plain_env ''sca-results/sca-critical.txt''
   \<and> fst (resolve_sca plain_env)
       = \<lparr>critical = JInt 3, high = JInt 4, medium = JInt 5, low = JInt 6\<rparr>
   \<and> exists plain_env ''dast-results/dast-critical.txt''
   \<and> fst (resolve_dast plain_env) = \<lparr>critical = 7, high = 8, medium = 9, low = 10\<rparr>
   \<and> \<not> exists semgrep_env ''sast-results/sast-critical.txt''
   \<and> exists semgrep_env ''sast-results/semgrep-results.json''
   \<and> resolve_sast semgrep_env = ((2, 1), [])
   \<and> \<not> exists high_only_env ''sca-results/sca-critical.txt''
   \<and> exists high_only_env ''sca-results/npm-audit-results.json''
   \<and> resolve_sca high_only_env
       = (\<lparr>critical = JInt 0, high = JInt 2, medium = JInt 1, low = JInt 0\<rparr>, [])
   \<and> \<not> exists zap_env ''dast-results/dast-critical.txt''
   \<and> exists zap_env ''dast-results/zap-report.json''
   \<and> resolve_dast zap_env = (\<lparr>critical = 2, high = 1, medium = 1, low = 1\<rparr>, [])
   \<and> \<not> exists absent_env ''sast-results/sast-critical.txt''
   \<and> \<not> exists absent_env ''sast-results/semgrep-results.json''
   \<and> resolve_sast absent_env = ((0, 0), [])
   \<and> \<not> exists absent_env ''sca-results/sca-critical.txt''
   \<and> \<not> exists absent_env ''sca-results/npm-audit-results.json''
   \<and> resolve_sca absent_env
       = (\<lparr>critical = JInt 0, high = JInt 0, medium = JInt 0, low = JInt 0\<rparr>, [])
   \<and> \<not> exists absent_env ''dast-results/dast-critical.txt''
   \<and> \<not> exists absent_env ''dast-results/zap-report.json''
   \<and> resolve_dast absent_env = (\<lparr>critical = 0, high = 0, medium = 0, low = 0\<rparr>, [])"
proof -
  note f = input_resolution_facts
  have b: "exists both_env ''sast-results/sast-critical.txt''"
    "exists both_env ''sast-results/semgrep-results.json''"
    by code_simp+
  from input_resolution [where e = plain_env and x = "Some (Text semgrep_text)"
      and d = "[semgrep_text \<mapsto> semgrep_doc]"] f(1,2,3,4) plain_env_reads
  have 1: "resolve_sast both_env = ((1, 2), [])"
    "fst (resolve_sca plain_env)
       = \<lparr>critical = JInt 3, high = JInt 4, medium = JInt 5, low = JInt 6\<rparr>"
    "fst (resolve_dast plain_env) = \<lparr>critical = 7, high = 8, medium = 9, low = 10\<rparr>"
    by (simp_all add: both_env_def)
  from input_resolution [where e = semgrep_env] f(5,6,7)
  have 2: "resolve_sast semgrep_env = ((2, 1), [])" by simp
  from input_resolution [where e = high_only_env] f(8,9,10)
  have 3: "resolve_sca high_only_env
       = (\<lparr>critical = JInt 0, high = JInt 2, medium = JInt 1, low = JInt 0\<rparr>, [])"
    by simp
  from input_resolution [where e = zap_env] f(11,12,13)
  have 4: "resolve_dast zap_env = (\<lparr>critical = 2, high = 1, medium = 1, low = 1\<rparr>, [])"
    by simp
  from input_resolution [where e = absent_env] f(14-19)
  have 5: "resolve_sast absent_env = ((0, 0), [])"
    "resolve_sca absent_env
       = (\<lparr>critical = JInt 0, high = JInt 0, medium = JInt 0, low = JInt 0\<rparr>, [])"
    "resolve_dast absent_env = (\<lparr>critical = 0, high = 0, medium = 0, low = 0\<rparr>, [])"
    by simp_all
  from b 1 2 3 4 5 f show ?thesis by blast
qed

text \<open>
  The claim C3 as stated fails: a plain-text count file of the category
  (\<open>sca-high.txt\<close>, holding 5) and the npm report both exist, and the counts are
  the report's; the file is not read.
\<close>

theorem count_file_ignored_without_critical:
  "exists high_only_env ''sca-results/sca-high.txt''
   \<and> exists high_only_env ''sca-results/npm-audit-results.json''
   \<and> read_count high_only_env ''sca-results/sca-high.txt'' 0 = (5, [])
   \<and> parse_npm_audit_results high_only_env ''sca-results/npm-audit-results.json''
       = (\<lparr>critical = JInt 0, high = JInt 2, medium = JInt 1, low = JInt 0\<rparr>, [])
   \<and> resolve_sca high_only_env
       = (\<lparr>critical = JInt 0, high = JInt 2, medium = JInt 1, low = JInt 0\<rparr>, [])"
  by code_simp

subsection \<open>Recoverable errors\<close>

lemma aggregate_Inl:
  assumes "aggregate sa sc da = Inl y"
  shows "y = TypeError \<and> (py_num (critical sc) = Inl TypeError \<or> py_num (high sc) = Inl TypeError
     \<or> py_num (medium sc) = Inl TypeError \<or> py_num (low sc) = Inl TypeError)"
proof -
  have n: "py_num v = Inl z \<Longrightarrow> z = TypeError" for v z
    by (cases v) auto
  from assms show ?thesis
    by (auto simp: aggregate_def split: sum.splits dest: n)
qed

lemma resolve_sca_cases:
  "(\<exists>a b c d. fst (resolve_sca e) = \<lparr>critical = JInt a, high = JInt b, medium = JInt c, low = JInt d\<rparr>)
   \<or> (\<not> exists e ''sca-results/sca-critical.txt''
       \<and> exists e ''sca-results/npm-audit-results.json''
       \<and> parse_npm_audit_try e ''sca-results/npm-audit-results.json'' = Inr (fst (resolve_sca e)))"
  by (auto simp: resolve_sca_def parse_npm_audit_results_def zero_json_def Let_def
      split: prod.splits sum.splits)

lemma main_Inl:
  assumes "main e = Inl y"
  shows "write_error e = Some y
    \<or> (y = TypeError
       \<and> \<not> exists e ''sca-results/sca-critical.txt''
       \<and> exists e ''sca-results/npm-audit-results.json''
       \<and> (\<exists>c. parse_npm_audit_try e ''sca-results/npm-audit-results.json'' = Inr c
            \<and> (py_num (critical c) = Inl TypeError \<or> py_num (high c) = Inl TypeError
               \<or> py_num (medium c) = Inl TypeError \<or> py_num (low c) = Inl TypeError)))"
proof (cases "aggregate (fst (resolve_sast e)) (fst (resolve_sca e)) (fst (resolve_dast e))")
  case (Inl z)
  with assms have z: "z = y"
    by (simp add: main_def Let_def split: prod.splits)
  note a = aggregate_Inl [OF Inl]
  from resolve_sca_cases [of e] show ?thesis
  proof
    assume "\<exists>a b c d. fst (resolve_sca e)
        = \<lparr>critical = JInt a, high = JInt b, medium = JInt c, low = JInt d\<rparr>"
    with a show ?thesis by auto
  next
    assume "\<not> exists e ''sca-results/sca-critical.txt''
       \<and> exists e ''sca-results/npm-audit-results.json''
       \<and> parse_npm_audit_try e ''sca-results/npm-audit-results.json'' = Inr (fst (resolve_sca e))"
    with a z show ?thesis by blast
  qed
next
  case (Inr t)
  with assms show ?thesis
    by (simp add: main_def Let_def split: prod.splits option.splits)
qed

text \<open>
  What the readers do with an error. \<open>read_count\<close> returns the default and prints a
  warning for a missing file, for content that is not an integer and for a file it
  cannot read; each report parser returns all-zero counts and prints a warning whenever
  its \<open>try\<close> block raises, as it does for a missing or unreadable file and for a
  text that is not JSON. None of the four raises to its caller.
\<close>

lemma readers_recover:
  "(files e p = None \<longrightarrow> read_count e p n = (n, [File_not_found p]))
   \<and> (files e p = Some (Text s) \<and> py_strip s \<noteq> [] \<and> py_int_str (py_strip s) = None
       \<longrightarrow> read_count e p n = (n, [Invalid_content p ValueError]))
   \<and> (files e p = Some (Unreadable x) \<longrightarrow> (\<exists>w. read_count e p n = (n, [w])))
   \<and> (files e p = None \<longrightarrow> load_json e p = Inl FileNotFoundError)
   \<and> (files e p = Some (Unreadable x) \<longrightarrow> load_json e p = Inl x)
   \<and> (files e p = Some (Text s) \<and> json_decode e s = None
       \<longrightarrow> load_json e p = Inl JSONDecodeError)
   \<and> (load_json e p = Inl y
       \<longrightarrow> parse_semgrep_try e p = Inl y \<and> parse_npm_audit_try e p = Inl y
           \<and> parse_zap_try e p = Inl y)
   \<and> (parse_semgrep_try e p = Inl y
       \<longrightarrow> parse_semgrep_results e p = ((0, 0), [Semgrep_unparsed y]))
   \<and> (parse_npm_audit_try e p = Inl y
       \<longrightarrow> parse_npm_audit_results e p =
            (\<lparr>critical = JInt 0, high = JInt 0, medium = JInt 0, low = JInt 0\<rparr>,
             [Npm_audit_unparsed y]))
   \<and> (parse_zap_try e p = Inl y
       \<longrightarrow> parse_zap_results e p =
            (\<lparr>critical = 0, high = 0, medium = 0, low = 0\<rparr>, [Zap_unparsed y]))"
proof -
  have r1: "files e p = None \<longrightarrow> read_count e p n = (n, [File_not_found p])"
    by (simp add: read_count_def read_count_try_def open_read_def)
  have r2: "files e p = Some (Text s) \<and> py_strip s \<noteq> [] \<and> py_int_str (py_strip s) = None
       \<longrightarrow> read_count e p n = (n, [Invalid_content p ValueError])"
    by (simp add: read_count_def read_count_try_def open_read_def is_ValueError_def)
  have r3: "files e p = Some (Unreadable x) \<longrightarrow> (\<exists>w. read_count e p n = (n, [w]))"
    by (simp add: read_count_def read_count_try_def open_read_def)
  have l: "files e p = None \<longrightarrow> load_json e p = Inl FileNotFoundError"
    "files e p = Some (Unreadable x) \<longrightarrow> load_json e p = Inl x"
    "files e p = Some (Text s) \<and> json_decode e s = None \<longrightarrow> load_json e p = Inl JSONDecodeError"
    by (simp_all add: load_json_def open_read_def)
  have t: "load_json e p = Inl y
       \<longrightarrow> parse_semgrep_try e p = Inl y \<and> parse_npm_audit_try e p = Inl y
           \<and> parse_zap_try e p = Inl y"
    by (simp add: parse_semgrep_try_def parse_npm_audit_try_def parse_zap_try_def)
  have h: "parse_semgrep_try e p = Inl y
       \<longrightarrow> parse_semgrep_results e p = ((0, 0), [Semgrep_unparsed y])"
    "parse_npm_audit_try e p = Inl y
       \<longrightarrow> parse_npm_audit_results e p =
            (\<lparr>critical = JInt 0, high = JInt 0, medium = JInt 0, low = JInt 0\<rparr>,
             [Npm_audit_unparsed y])"
    "parse_zap_try e p = Inl y
       \<longrightarrow> parse_zap_results e p =
            (\<lparr>critical = 0, high = 0, medium = 0, low = 0\<rparr>, [Zap_unparsed y])"
    by (simp_all add: parse_semgrep_results_def parse_npm_audit_results_def
        parse_zap_results_def zero_json_def zero_counts_def)
  from r1 r2 r3 l t h show ?thesis by blast
qed

text \<open>
  A run over damaged inputs that goes on: a count file that holds no integer, a report
  that is not JSON, a count file that cannot be read.
\<close>

lemma garbled_env_run:
  "map_sum id totals (main garbled_env) = Inr \<lparr>critical = 0, high = 0, medium = 0, low = 0\<rparr>"
  "map_sum id warnings (main garbled_env) =
     Inr [Invalid_content ''sast-results/sast-critical.txt'' ValueError,
          File_not_found ''sast-results/sast-high.txt'',
          Npm_audit_unparsed JSONDecodeError,
          Error_reading ''dast-results/dast-critical.txt'' OSError,
          File_not_found ''dast-results/dast-high.txt'',
          File_not_found ''dast-results/dast-medium.txt'',
          File_not_found ''dast-results/dast-low.txt'']"
  "exit_code garbled_env = 0"
  by code_simp+

text \<open>
  C4. The content of one input file can end the run. The npm audit report below is valid
  JSON, and its critical count is the string "1", not an integer.
  \<open>parse_npm_audit_results\<close> converts nothing inside its \<open>try\<close> block: it
  returns the string as the critical count, without a warning and without putting 0 in
  its place. The addition of the totals in \<open>main\<close> then raises \<open>TypeError\<close>,
  and the script exits with code 1. \<open>read_count\<close> does convert inside its
  \<open>try\<close> block: a count file that holds \<open>abc\<close> gives 0 and a warning, and that
  run goes on to exit with code 0.
\<close>

theorem npm_count_string_ends_run:
  "files npm_string_env ''sca-results/npm-audit-results.json'' = Some (Text npm_string_text)
   \<and> json_decode npm_string_env npm_string_text = Some npm_string_doc
   \<and> json_loads npm_string_text = Some npm_string_doc
   \<and> parse_npm_audit_results npm_string_env ''sca-results/npm-audit-results.json''
       = (\<lparr>critical = JString ''1'', high = JInt 0, medium = JInt 0, low = JInt 0\<rparr>, [])
   \<and> main npm_string_env = Inl TypeError
   \<and> exit_code npm_string_env = 1
   \<and> read_count garbled_env ''sast-results/sast-critical.txt'' 0
       = (0, [Invalid_content ''sast-results/sast-critical.txt'' ValueError])
   \<and> exit_code garbled_env = 0"
  by code_simp

section \<open>Decoding what json.dump wrote\<close>

declare str_nat.simps [simp del]

lemma char_of_eq_iff: "n < 256 \<Longrightarrow> (char_of n = c) = (n = (of_char c :: nat))"
  by (metis of_char_of char_of_char mod_less)

lemma is_digit_char_of: "n < 10 \<Longrightarrow> is_digit (char_of (48 + (n::nat)))"
  by (simp add: is_digit_def Let_def)

lemma digit_val_char_of: "n < 10 \<Longrightarrow> digit_val (char_of (48 + n)) = n"
  by (simp add: digit_val_def)

lemma str_nat_digits: "list_all is_digit (str_nat n)"
proof (induction n rule: str_nat.induct)
  case (1 n)
  show ?case
  proof (cases "n < 10")
    case True
    then show ?thesis by (subst str_nat.simps) (simp add: is_digit_char_of)
  next
    case False
    with 1 show ?thesis by (subst str_nat.simps) (simp add: is_digit_char_of)
  qed
qed

lemma digits_value_snoc: "digits_value (ds @ [c]) = 10 * digits_value ds + digit_val c"
  by (simp add: digits_value_def)

lemma digits_value_str_nat: "digits_value (str_nat n) = n"
proof (induction n rule: str_nat.induct)
  case (1 n)
  show ?case
  proof (cases "n < 10")
    case True
    then show ?thesis
      by (subst str_nat.simps) (simp add: digits_value_def digit_val_char_of)
  next
    case False
    with 1 show ?thesis
      by (subst str_nat.simps) (simp add: digits_value_snoc digit_val_char_of)
  qed
qed

lemma str_nat_nonempty: "str_nat n \<noteq> []"
  by (subst str_nat.simps) simp

lemma str_nat_zero: "str_nat 0 = ''0''"
  by (subst str_nat.simps) (simp add: char_of_eq_iff)

lemma str_nat_hd: "0 < n \<Longrightarrow> hd (str_nat n) \<noteq> CHR ''0''"
proof (induction n rule: str_nat.induct)
  case (1 n)
  show ?case
  proof (cases "n < 10")
    case True
    have "char_of (48 + n) = CHR ''0'' \<Longrightarrow> n = 0"
    proof -
      assume "char_of (48 + n) = CHR ''0''"
      then have "of_char (char_of (48 + n) :: char) = (of_char CHR ''0'' :: nat)" by simp
      with True show "n = 0" by simp
    qed
    with True 1(2) show ?thesis by (subst str_nat.simps) auto
  next
    case False
    then have "0 < n div 10" by simp
    with 1(1) False have "hd (str_nat (n div 10)) \<noteq> CHR ''0''" by simp
    with False show ?thesis
      by (subst str_nat.simps) (simp add: str_nat_nonempty)
  qed
qed


lemma delimited_not_digit: "delimited (c # cs) \<Longrightarrow> \<not> is_digit c"
  by (auto simp: delimited_def is_digit_def)

lemma delimited_no_fraction: "delimited rest \<Longrightarrow> no_fraction rest"
  by (auto simp: delimited_def no_fraction_def split: list.splits)

lemma takeWhile_digits:
  assumes "list_all is_digit ds" and "delimited rest"
  shows "takeWhile is_digit (ds @ rest) = ds" and "dropWhile is_digit (ds @ rest) = rest"
proof -
  have d: "\<forall>c\<in>set ds. is_digit c" using assms(1) by (simp add: list_all_iff)
  have r: "takeWhile is_digit rest = []" "dropWhile is_digit rest = rest"
    using assms(2) by (cases rest; simp add: delimited_not_digit)+
  show "takeWhile is_digit (ds @ rest) = ds"
    using d r by (simp add: takeWhile_append2)
  show "dropWhile is_digit (ds @ rest) = rest"
    using d r by (simp add: dropWhile_append2)
qed

lemma natural_str_nat:
  assumes "delimited rest"
  shows "natural (str_nat n @ rest) = Some (n, rest)"
proof (cases "n = 0")
  case True
  then show ?thesis by (simp add: str_nat_zero natural_def)
next
  case False
  obtain c cs where s: "str_nat n = c # cs"
    using str_nat_nonempty [of n] by (cases "str_nat n") auto
  have c0: "c \<noteq> CHR ''0''" using str_nat_hd [of n] False s by simp
  have dg: "is_digit c" "list_all is_digit cs"
    using str_nat_digits [of n] s by simp_all
  have v: "digits_value (c # cs) = n" using digits_value_str_nat [of n] s by simp
  show ?thesis
    using c0 dg v takeWhile_digits [OF dg(2) assms]
    by (simp add: s natural_def)
qed

lemma str_nat_first: "\<exists>c cs. str_nat n = c # cs \<and> is_digit c"
  using str_nat_nonempty [of n] str_nat_digits [of n] by (cases "str_nat n") auto

lemma number_str_int:
  assumes "delimited rest"
  shows "number (str_int i @ rest) = Some (JInt i, rest)"
proof (cases "i < 0")
  case True
  then show ?thesis
    using natural_str_nat [OF assms, of "nat (- i)"] delimited_no_fraction [OF assms]
    by (simp add: str_int_def number_def)
next
  case False
  obtain c cs where s: "str_nat (nat i) = c # cs" and d: "is_digit c"
    using str_nat_first by blast
  have m: "c \<noteq> CHR ''-''" using d by (auto simp: is_digit_def)
  have "natural ((c # cs) @ rest) = Some (nat i, rest)"
    using natural_str_nat [OF assms, of "nat i"] s by simp
  then show ?thesis
    using False m delimited_no_fraction [OF assms]
    by (simp add: str_int_def number_def s)
qed

lemma str_int_first:
  "\<exists>c cs. str_int i = c # cs \<and> (c = CHR ''-'' \<or> is_digit c)"
  using str_nat_first [of "nat i"] by (auto simp: str_int_def)

lemma scalar_str_int:
  assumes "delimited rest"
  shows "scalar (str_int i @ rest) = Some (JInt i, rest)"
proof -
  obtain c cs where s: "str_int i = c # cs" and d: "c = CHR ''-'' \<or> is_digit c"
    using str_int_first by blast
  have "c \<noteq> CHR ''n''" "c \<noteq> CHR ''t''" "c \<noteq> CHR ''f''"
    using d by (auto simp: is_digit_def)
  then have "take 4 ((c # cs) @ rest) \<noteq> ''null''" "take 4 ((c # cs) @ rest) \<noteq> ''true''"
    "take 5 ((c # cs) @ rest) \<noteq> ''false''"
    by (simp_all add: take_Cons')
  then show ?thesis
    using number_str_int [OF assms, of i] by (simp add: scalar_def s)
qed

lemma decode_int:
  assumes "delimited rest"
  shows "decode (Suc n) (str_int i @ rest) = Some (JInt i, rest)"
proof -
  obtain c cs where s: "str_int i = c # cs" and d: "c = CHR ''-'' \<or> is_digit c"
    using str_int_first by blast
  have "c \<noteq> CHR ''{''" "c \<noteq> CHR ''[''" "c \<noteq> CHR 0x22"
    using d by (auto simp: is_digit_def)
  then show ?thesis
    using scalar_str_int [OF assms, of i] by (simp add: s)
qed

lemma decode_literals:
  "decode (Suc n) (''null'' @ rest) = Some (JNull, rest)"
  "decode (Suc n) (''true'' @ rest) = Some (JBool True, rest)"
  "decode (Suc n) (''false'' @ rest) = Some (JBool False, rest)"
  by (simp_all add: scalar_def)


lemma hex_val_hex_char: "n < 16 \<Longrightarrow> hex_val (hex_char n) = Some n"
  by (auto simp: hex_val_def hex_char_def Let_def)

lemma hex4_escape:
  fixes c :: char
  shows "hex4 CHR ''0'' CHR ''0'' (hex_char (of_char c div 16)) (hex_char (of_char c mod 16))
    = Some c"
proof -
  have b: "(of_char c :: nat) < 256" by simp
  have "(of_char c :: nat) div 16 < 16"
    by (rule less_mult_imp_div_less) simp
  then have 1: "hex_val (hex_char (of_char c div 16)) = Some (of_char c div 16)"
    by (rule hex_val_hex_char)
  have 2: "hex_val (hex_char (of_char c mod 16)) = Some (of_char c mod 16)"
    by (rule hex_val_hex_char) simp
  have 0: "hex_val CHR ''0'' = Some 0" by (simp add: hex_val_def)
  have "(of_char c div 16) * 16 + of_char c mod 16 = (of_char c :: nat)" by simp
  then show ?thesis
    using b by (simp add: hex4_def 0 1 2)
qed

lemma char_is: "(of_char c :: nat) = of_char d \<Longrightarrow> c = d"
  by simp

lemma string_body_step:
  assumes "string_body X = Some (str, rest)"
  shows "string_body (escape_char c @ X) = Some (c # str, rest)"
proof -
  let ?n = "of_char c :: nat"
  consider (quote) "c = CHR 0x22" | (backslash) "c = CHR 0x5C"
    | (plain) "c \<noteq> CHR 0x22" "c \<noteq> CHR 0x5C" "32 \<le> ?n" "?n \<le> 126"
    | (b) "?n = 8" | (f) "?n = 12" | (n) "?n = 10" | (r) "?n = 13" | (t) "?n = 9"
    | (other) "c \<noteq> CHR 0x22" "c \<noteq> CHR 0x5C" "\<not> (32 \<le> ?n \<and> ?n \<le> 126)"
        "?n \<noteq> 8" "?n \<noteq> 12" "?n \<noteq> 10" "?n \<noteq> 13" "?n \<noteq> 9"
    by blast
  then show ?thesis
  proof cases
    case quote
    then show ?thesis using assms by (simp add: escape_char_def unescape_def)
  next
    case backslash
    then show ?thesis using assms by (simp add: escape_char_def unescape_def)
  next
    case plain
    then show ?thesis using assms by (simp add: escape_char_def Let_def)
  next
    case b
    then have "c = CHR 0x08" by (intro char_is) simp
    then show ?thesis using assms by (simp add: escape_char_def unescape_def)
  next
    case f
    then have "c = CHR 0x0C" by (intro char_is) simp
    then show ?thesis using assms by (simp add: escape_char_def unescape_def)
  next
    case n
    then have "c = CHR 0x0A" by (intro char_is) simp
    then show ?thesis using assms by (simp add: escape_char_def unescape_def)
  next
    case r
    then have "c = CHR 0x0D" by (intro char_is) simp
    then show ?thesis using assms by (simp add: escape_char_def unescape_def)
  next
    case t
    then have "c = CHR 0x09" by (intro char_is) simp
    then show ?thesis using assms by (simp add: escape_char_def unescape_def)
  next
    case other
    then have "escape_char c = [CHR 0x5C, CHR ''u'', CHR ''0'', CHR ''0'',
        hex_char (?n div 16), hex_char (?n mod 16)]"
      by (simp add: escape_char_def Let_def)
    then show ?thesis using assms hex4_escape [of c] by simp
  qed
qed

lemma string_body_escaped:
  "string_body (concat (map escape_char str) @ CHR 0x22 # rest) = Some (str, rest)"
proof (induction str)
  case Nil
  then show ?case by simp
next
  case (Cons c str)
  then show ?case using string_body_step [OF Cons, of c] by simp
qed

lemma decode_string:
  "decode (Suc n) (dump_string str @ rest) = Some (JString str, rest)"
  using string_body_escaped [of str rest] by (simp add: dump_string_def)


lemma dump_first: "\<exists>c cs. dump lvl j = c # cs \<and> opener c"
proof (cases j)
  case (JInt i)
  obtain c cs where "str_int i = c # cs" "c = CHR ''-'' \<or> is_digit c"
    using str_int_first by blast
  then show ?thesis
    using JInt by (auto simp: opener_def is_ws_def is_digit_def)
qed (auto simp: opener_def is_ws_def dump_string_def)

lemma skip_ws_opener: "opener c \<Longrightarrow> skip_ws (c # cs) = c # cs"
  by (simp add: skip_ws_def opener_def)

lemma skip_ws_dump: "skip_ws (dump lvl j @ rest) = dump lvl j @ rest"
  using dump_first [of lvl j] by (auto simp: skip_ws_opener)

lemma skip_ws_newline_indent:
  "skip_ws (newline_indent lvl @ s) = skip_ws s"
  by (simp add: skip_ws_def newline_indent_def is_ws_def dropWhile_append)

lemma skip_ws_char: "\<not> is_ws c \<Longrightarrow> skip_ws (c # cs) = c # cs"
  by (simp add: skip_ws_def)

lemma not_ws: "\<not> is_ws CHR '',''" "\<not> is_ws CHR '']''" "\<not> is_ws CHR ''}''"
  "\<not> is_ws CHR '':''" "\<not> is_ws CHR 0x22"
  by (simp_all add: is_ws_def)

lemma delimited_simps: "delimited (CHR '','' # s)" "delimited (newline_indent lvl @ s)"
  "delimited []"
  by (simp_all add: delimited_def newline_indent_def)

lemma elements_joined:
  assumes "xs \<noteq> []"
    and "\<And>x n rest. x \<in> set xs \<Longrightarrow> delimited rest \<Longrightarrow> size x < n
          \<Longrightarrow> decode n (dump lvl x @ rest) = Some (x, rest)"
    and "size_list size xs < n"
  shows "elements n (join (CHR '','' # newline_indent lvl) (map (dump lvl) xs)
            @ newline_indent k @ CHR '']'' # rest) = Some (xs, rest)"
  using assms
proof (induction xs arbitrary: n)
  case Nil
  then show ?case by simp
next
  case (Cons x xs)
  from Cons.prems(3) obtain m where n: "n = Suc m" by (cases n) auto
  have sx: "size x < m" using Cons.prems(3) n by simp
  show ?case
  proof (cases xs)
    case Nil
    have "decode m (dump lvl x @ newline_indent k @ CHR '']'' # rest)
        = Some (x, newline_indent k @ CHR '']'' # rest)"
      using Cons.prems(2) [of x] sx by (simp add: delimited_simps)
    then show ?thesis
      by (simp add: n Nil skip_ws_newline_indent skip_ws_char not_ws)
  next
    case (Cons y ys)
    let ?tail = "join (CHR '','' # newline_indent lvl) (map (dump lvl) (y # ys))
            @ newline_indent k @ CHR '']'' # rest"
    have d: "decode m (dump lvl x @ CHR '','' # newline_indent lvl @ ?tail)
        = Some (x, CHR '','' # newline_indent lvl @ ?tail)"
      using Cons.prems(2) [of x] sx by (simp add: delimited_simps)
    have i: "elements m ?tail = Some (y # ys, rest)"
      using Cons.IH [of m] Cons.prems(2,3) n Cons by simp
    obtain c cs where f: "dump lvl y = c # cs" "opener c"
      using dump_first by blast
    have t: "skip_ws ?tail = ?tail"
      by (cases ys) (simp_all add: f skip_ws_opener)
    show ?thesis
      using d i t
      by (simp add: n Cons skip_ws_newline_indent skip_ws_char not_ws)
  qed
qed


lemma members_joined:
  assumes "kvs \<noteq> []"
    and "\<And>kv n rest. kv \<in> set kvs \<Longrightarrow> delimited rest \<Longrightarrow> size (snd kv) < n
          \<Longrightarrow> decode n (dump lvl (snd kv) @ rest) = Some (snd kv, rest)"
    and "size_list (size_prod (\<lambda>x. 0) size) kvs < n"
  shows "members n (join (CHR '','' # newline_indent lvl)
              (map (\<lambda>kv. dump_string (fst kv) @ '': '' @ dump lvl (snd kv)) kvs)
            @ newline_indent k @ CHR ''}'' # rest) = Some (kvs, rest)"
  using assms
proof (induction kvs arbitrary: n)
  case Nil
  then show ?case by simp
next
  case (Cons kv kvs)
  obtain key v where kv: "kv = (key, v)" by (cases kv)
  from Cons.prems(3) obtain m where n: "n = Suc m" by (cases n) auto
  have sv: "size v < m" using Cons.prems(3) n kv by simp
  have key: "string_body (concat (map escape_char key) @ CHR 0x22 # CHR '':'' # CHR '' '' # X)
      = Some (key, CHR '':'' # CHR '' '' # X)" for X
    by (rule string_body_escaped)
  have sp: "skip_ws (CHR '' '' # dump lvl v @ X) = dump lvl v @ X" for X
    using skip_ws_dump [of lvl v X] by (simp add: skip_ws_def is_ws_def)
  show ?case
  proof (cases kvs)
    case Nil
    have "decode m (dump lvl v @ newline_indent k @ CHR ''}'' # rest)
        = Some (v, newline_indent k @ CHR ''}'' # rest)"
      using Cons.prems(2) [of kv] sv kv by (simp add: delimited_simps)
    then show ?thesis
      using key sp
      by (simp add: n Nil kv dump_string_def skip_ws_newline_indent skip_ws_char not_ws)
  next
    case (Cons kv' kvs')
    let ?tail = "join (CHR '','' # newline_indent lvl)
              (map (\<lambda>kv. dump_string (fst kv) @ '': '' @ dump lvl (snd kv)) (kv' # kvs'))
            @ newline_indent k @ CHR ''}'' # rest"
    have d: "decode m (dump lvl v @ CHR '','' # newline_indent lvl @ ?tail)
        = Some (v, CHR '','' # newline_indent lvl @ ?tail)"
      using Cons.prems(2) [of kv] sv kv by (simp add: delimited_simps)
    have i: "members m ?tail = Some (kv' # kvs', rest)"
      using Cons.IH [of m] Cons.prems(2,3) n Cons kv by simp
    have t: "skip_ws ?tail = ?tail"
      by (cases kvs') (simp_all add: dump_string_def skip_ws_char not_ws)
    show ?thesis
      using d i t key sp
      by (simp add: n Cons kv dump_string_def skip_ws_newline_indent skip_ws_char not_ws)
  qed
qed

lemma dict_set_fresh: "k \<notin> fst ` set d \<Longrightarrow> dict_set d k v = d @ [(k, v)]"
  by (induction d) auto

lemma dict_fold_distinct:
  "distinct (map fst (d @ kvs))
   \<Longrightarrow> foldl (\<lambda>d kv. dict_set d (fst kv) (snd kv)) d kvs = d @ kvs"
proof (induction kvs arbitrary: d)
  case Nil
  then show ?case by simp
next
  case (Cons kv kvs)
  have "dict_set d (fst kv) (snd kv) = d @ [kv]"
    using Cons.prems by (simp add: dict_set_fresh)
  then show ?case using Cons.IH [of "d @ [kv]"] Cons.prems by simp
qed

lemma dict_of_distinct: "distinct (map fst kvs) \<Longrightarrow> dict_of kvs = kvs"
  using dict_fold_distinct [of "[]" kvs] by (simp add: dict_of_def)

lemma decode_dump:
  "distinct_keys j \<Longrightarrow> delimited rest \<Longrightarrow> size j < n
   \<Longrightarrow> decode n (dump lvl j @ rest) = Some (j, rest)"
proof (induction j arbitrary: n lvl rest)
  case JNull
  then obtain m where "n = Suc m" by (cases n) auto
  then show ?case using decode_literals(1) [of m rest] by simp
next
  case (JBool b)
  then obtain m where "n = Suc m" by (cases n) auto
  then show ?case using decode_literals(2,3) [of m rest] by simp
next
  case (JInt i)
  then obtain m where "n = Suc m" by (cases n) auto
  then show ?case using decode_int [OF JInt(2), of m i] by simp
next
  case (JString str)
  then obtain m where "n = Suc m" by (cases n) auto
  then show ?case using decode_string [of m str rest] by simp
next
  case (JArray xs)
  from JArray.prems(3) obtain m where n: "n = Suc m" by (cases n) auto
  show ?case
  proof (cases "xs = []")
    case True
    then show ?thesis by (simp add: n skip_ws_char not_ws)
  next
    case False
    let ?body = "join (CHR '','' # newline_indent (Suc lvl)) (map (dump (Suc lvl)) xs)
            @ newline_indent lvl @ CHR '']'' # rest"
    have e: "elements m ?body = Some (xs, rest)"
    proof (rule elements_joined [OF False])
      fix x k r
      assume "x \<in> set xs" "delimited r" "size x < k"
      moreover from \<open>x \<in> set xs\<close> JArray.prems(1) have "distinct_keys x"
        by (simp add: list_all_iff)
      ultimately show "decode k (dump (Suc lvl) x @ r) = Some (x, r)"
        using JArray.IH by blast
    next
      show "size_list size xs < m" using JArray.prems(3) n by simp
    qed
    obtain x xs' where xs: "xs = x # xs'" using False by (cases xs) auto
    obtain c cs where f: "dump (Suc lvl) x = c # cs" "opener c"
      using dump_first by blast
    obtain r where b: "?body = c # r"
      by (cases xs') (simp_all add: xs f)
    have "skip_ws (newline_indent (Suc lvl) @ ?body) = c # r"
      using b f(2) by (simp add: skip_ws_newline_indent skip_ws_opener)
    moreover have "c \<noteq> CHR '']''" using f(2) by (simp add: opener_def)
    ultimately show ?thesis
      using e b False by (simp add: n)
  qed
next
  case (JObject kvs)
  from JObject.prems(3) obtain m where n: "n = Suc m" by (cases n) auto
  show ?case
  proof (cases "kvs = []")
    case True
    then show ?thesis by (simp add: n skip_ws_char not_ws)
  next
    case False
    let ?body = "join (CHR '','' # newline_indent (Suc lvl))
              (map (\<lambda>kv. dump_string (fst kv) @ '': '' @ dump (Suc lvl) (snd kv)) kvs)
            @ newline_indent lvl @ CHR ''}'' # rest"
    have e: "members m ?body = Some (kvs, rest)"
    proof (rule members_joined [OF False])
      fix kv k r
      assume a: "kv \<in> set kvs" "delimited r" "size (snd kv) < k"
      from a(1) JObject.prems(1) have "distinct_keys (snd kv)"
        by (simp add: list_all_iff)
      moreover have "snd kv \<in> Basic_BNFs.snds kv"
        by (cases kv) simp
      ultimately show "decode k (dump (Suc lvl) (snd kv) @ r) = Some (snd kv, r)"
        using JObject.IH a by blast
    next
      show "size_list (size_prod (\<lambda>x. 0) size) kvs < m" using JObject.prems(3) n by simp
    qed
    obtain kv kvs' where kvs: "kvs = kv # kvs'" using False by (cases kvs) auto
    obtain r where b: "?body = CHR 0x22 # r"
      by (cases kvs') (simp_all add: kvs dump_string_def)
    have "skip_ws (newline_indent (Suc lvl) @ ?body) = CHR 0x22 # r"
      using b by (simp add: skip_ws_newline_indent skip_ws_char not_ws)
    moreover have "dict_of kvs = kvs"
      using JObject.prems(1) by (simp add: dict_of_distinct)
    ultimately show ?thesis
      using e b False by (simp add: n)
  qed
qed


lemma size_list_join:
  assumes "xs \<noteq> []" and "\<And>x. x \<in> set xs \<Longrightarrow> f x \<le> length (g x)" and "sep \<noteq> []"
  shows "size_list f xs \<le> length (join sep (map g xs)) + 1"
  using assms
proof (induction xs)
  case Nil
  then show ?case by simp
next
  case (Cons x xs)
  have x: "f x \<le> length (g x)" using Cons.prems(2) by simp
  show ?case
  proof (cases xs)
    case Nil
    then show ?thesis using x by simp
  next
    case (Cons y ys)
    have "size_list f xs \<le> length (join sep (map g xs)) + 1"
      using Cons.IH Cons.prems(2,3) Cons by simp
    moreover have "1 \<le> length sep" using Cons.prems(3) by (cases sep) auto
    ultimately show ?thesis using x Cons by simp
  qed
qed

lemma size_le_dump: "size j \<le> length (dump lvl j)"
proof (induction j arbitrary: lvl)
  case (JArray xs)
  show ?case
  proof (cases "xs = []")
    case True
    then show ?thesis by simp
  next
    case False
    have "size_list size xs
        \<le> length (join (CHR '','' # newline_indent (Suc lvl)) (map (dump (Suc lvl)) xs)) + 1"
      by (rule size_list_join [OF False]) (simp_all add: JArray.IH)
    then show ?thesis using False by simp
  qed
next
  case (JObject kvs)
  show ?case
  proof (cases "kvs = []")
    case True
    then show ?thesis by simp
  next
    case False
    have "size_list (size_prod (\<lambda>x. 0) size) kvs
        \<le> length (join (CHR '','' # newline_indent (Suc lvl))
            (map (\<lambda>kv. dump_string (fst kv) @ '': '' @ dump (Suc lvl) (snd kv)) kvs)) + 1"
    proof (rule size_list_join [OF False])
      fix kv
      assume a: "kv \<in> set kvs"
      have "snd kv \<in> Basic_BNFs.snds kv" by (cases kv) simp
      with a have "size (snd kv) \<le> length (dump (Suc lvl) (snd kv))"
        by (rule JObject.IH)
      then show "size_prod (\<lambda>x. 0) size kv
          \<le> length (dump_string (fst kv) @ '': '' @ dump (Suc lvl) (snd kv))"
        by (cases kv) simp
    qed simp
    then show ?thesis using False by simp
  qed
qed simp_all

lemma json_loads_dump: "distinct_keys j \<Longrightarrow> json_loads (json_dump j) = Some j"
proof -
  assume d: "distinct_keys j"
  have "size j < 2 * length (dump 0 j) + 2"
    using size_le_dump [of j 0] by simp
  then have "decode (2 * length (dump 0 j) + 2) (dump 0 j @ []) = Some (j, [])"
    using d by (intro decode_dump) (simp_all add: delimited_simps)
  then show ?thesis
    using skip_ws_dump [of 0 j "[]"] by (simp add: json_loads_def json_dump_def skip_ws_def)
qed

lemma py_num_leaf: "py_num v = Inr n \<Longrightarrow> distinct_keys v"
  by (cases v) auto

lemma distinct_keys_summary:
  assumes "distinct_keys (critical sc)" "distinct_keys (high sc)"
    "distinct_keys (medium sc)" "distinct_keys (low sc)"
  shows "distinct_keys (build_summary sa sc da t fs)"
  using assms by (simp add: build_summary_def counts_json_def list_all_iff)

text \<open>
  The reference decoder on the example reports: it yields the documents the example
  environments give as their decoder's results.
\<close>

lemma example_reports_decode:
  "json_loads semgrep_text = Some semgrep_doc"
  "json_loads zap_text = Some zap_doc"
  "json_loads npm_text = Some npm_doc"
  "json_loads npm_string_text = Some npm_string_doc"
  "json_loads zap_high_text = Some zap_high_doc"
  "json_loads ''{not json'' = None"
  by code_simp+

text \<open>The layout of the encoder on a small value.\<close>

lemma json_dump_example:
  \<open>json_dump (JObject [(''total'', JInt (- 5)), (''passed'', JBool True),
      (''failures'', JArray []), (''names'', JArray [JString ''a'', JNull])])
   = ''{\<newline>  "total": -5,\<newline>  "passed": true,\<newline>  "failures": [],\<newline>  "names": [\<newline>    "a",\<newline>    null\<newline>  ]\<newline>}''\<close>
  by code_simp

text \<open>
  C9. When \<open>main\<close> returns, decoding the text it wrote to
  \<open>quality-gate-summary.json\<close> yields the summary dict itself, and with it the four
  totals, the overall total and \<open>passed\<close> as they were computed in the run.
\<close>

theorem summary_round_trip:
  assumes "main e = Inr r"
  shows "json_loads (written r) = Some (summary r)
    \<and> entry (summary r) ''total_critical'' = Some (JInt (critical (totals r)))
    \<and> entry (summary r) ''total_high'' = Some (JInt (high (totals r)))
    \<and> entry (summary r) ''total_medium'' = Some (JInt (medium (totals r)))
    \<and> entry (summary r) ''total_low'' = Some (JInt (low (totals r)))
    \<and> entry (summary r) ''total'' =
        Some (JInt (critical (totals r) + high (totals r) + medium (totals r) + low (totals r)))
    \<and> entry (summary r) ''passed'' = Some (JBool (failures r = []))"
proof -
  have s: "summary r = build_summary (sast r) (sca r) (dast r) (totals r) (failures r)"
    and w: "written r = json_dump (summary r)"
    using main_Inr(6,7) [OF assms] by simp_all
  from aggregate_Inr [OF main_Inr(4) [OF assms]]
  have "distinct_keys (critical (sca r))" "distinct_keys (high (sca r))"
    "distinct_keys (medium (sca r))" "distinct_keys (low (sca r))"
    by (auto dest: py_num_leaf)
  then have "distinct_keys (summary r)"
    unfolding s by (rule distinct_keys_summary)
  then have "json_loads (written r) = Some (summary r)"
    unfolding w by (rule json_loads_dump)
  then show ?thesis
    unfolding s by (simp add: entry_totals entry_passed)
qed

theorem summary_round_trip_witness:
  "\<exists>r. main semgrep_env = Inr r
     \<and> json_loads (written r) = Some (summary r)
     \<and> entry (summary r) ''total_critical'' = Some (JInt 2)
     \<and> entry (summary r) ''total_high'' = Some (JInt 1)
     \<and> entry (summary r) ''total'' = Some (JInt 3)
     \<and> entry (summary r) ''passed'' = Some (JBool False)"
proof -
  obtain r where r: "main semgrep_env = Inr r"
    and t: "totals r = \<lparr>critical = 2, high = 1, medium = 0, low = 0\<rparr>"
    using semgrep_env_totals by (cases "main semgrep_env") auto
  have f: "failures r \<noteq> []"
    using main_Inr(5) [OF r] t by (simp add: check_thresholds_def thresholds_def Let_def)
  from summary_round_trip [OF r] t f r show ?thesis by simp
qed

end
